theory Spec2Isabelle
  imports Complex_Main "HOL-Library.Char_ord" "HOL-Library.List_Lexorder"
    "HOL-Library.Product_Lexorder"
begin

section \<open>Python values shared by both tools\<close>

text \<open>
  Both programs talk to the outside world: HTTP, sub-processes, standard input, the file
  system. Every such call either returns a value or raises, and the model makes the
  raise a value. The exception classes are the ones the two scripts can meet; the
  carried string is the exception's message.
\<close>

datatype exn =
    URLError string
  | HTTPError string
  | TimeoutError string
  | RequestException string
  | JSONDecodeError
  | AttributeError
  | TypeError
  | ValueError
  | OverflowError
  | OSError string
  | FileNotFoundError
  | CalledProcessError
  | EOFError
  | IndexError
  | KeyError
  | KeyboardInterrupt
  | SystemExit int

datatype 'a outcome = Returns 'a | Raises exn

text \<open>How the interpreter leaves: \<open>sys.exit(n)\<close> or falling off the end of the script
  give an exit code, any other exception that reaches the top prints a traceback.\<close>

datatype status = Exit int | Traceback exn

fun status_of :: "'a outcome \<Rightarrow> status" where
  "status_of (Returns _) = Exit 0"
| "status_of (Raises (SystemExit c)) = Exit c"
| "status_of (Raises e) = Traceback e"

text \<open>
  A decoded JSON document, as \<open>json.loads\<close> builds it. \<open>JNull\<close> is Python's \<open>None\<close>.
  A \<open>JObj\<close> is a dict: the association list, with every key once, is read with
  \<open>map_of\<close>. \<open>JFloat\<close> is a
  finite float, \<open>JSpecial\<close> one of the three non-finite ones, which \<open>json.loads\<close>
  accepts.
\<close>

datatype special = NaN | PosInf | NegInf

datatype json =
    JNull
  | JBool bool
  | JInt int
  | JFloat real
  | JSpecial special
  | JStr string
  | JArr "json list"
  | JObj "(string \<times> json) list"

text \<open>Truth value of an object (\<open>if x\<close>, \<open>not x\<close>, \<open>x or y\<close>).\<close>

fun truthy :: "json \<Rightarrow> bool" where
  "truthy JNull = False"
| "truthy (JBool b) = b"
| "truthy (JInt n) = (n \<noteq> 0)"
| "truthy (JFloat r) = (r \<noteq> 0)"
| "truthy (JSpecial _) = True"
| "truthy (JStr s) = (s \<noteq> [])"
| "truthy (JArr xs) = (xs \<noteq> [])"
| "truthy (JObj kvs) = (kvs \<noteq> [])"

definition py_or :: "json \<Rightarrow> json \<Rightarrow> json" where
  "py_or x y = (if truthy x then x else y)"

text \<open>\<open>x.get(key, default)\<close>: only a dict has the method.\<close>

fun py_get_default :: "json \<Rightarrow> string \<Rightarrow> json \<Rightarrow> json outcome" where
  "py_get_default (JObj kvs) k d = Returns (case map_of kvs k of None \<Rightarrow> d | Some v \<Rightarrow> v)"
| "py_get_default _ k d = Raises AttributeError"

definition py_get :: "json \<Rightarrow> string \<Rightarrow> json outcome" where
  "py_get x k = py_get_default x k JNull"

text \<open>\<open>for item in x\<close>: a list gives its elements, a dict its keys, a string its
  characters; nothing else is iterable.\<close>

fun py_iter :: "json \<Rightarrow> json list outcome" where
  "py_iter (JArr xs) = Returns xs"
| "py_iter (JObj kvs) = Returns (map (\<lambda>kv. JStr (fst kv)) kvs)"
| "py_iter (JStr s) = Returns (map (\<lambda>c. JStr [c]) s)"
| "py_iter _ = Raises TypeError"

subsection \<open>Strings\<close>

text \<open>
  Strings are modelled over ASCII. \<open>str.strip()\<close> removes the characters for which
  \<open>str.isspace\<close> holds (codes 9 to 13, 28 to 32) from both ends; \<open>str.lower()\<close> maps
  \<open>A\<close>..\<open>Z\<close> to \<open>a\<close>..\<open>z\<close>.
\<close>

definition is_space :: "char \<Rightarrow> bool" where
  "is_space c = (let n = (of_char c :: nat) in (9 \<le> n \<and> n \<le> 13) \<or> (28 \<le> n \<and> n \<le> 32))"

definition py_strip :: "string \<Rightarrow> string" where
  "py_strip s = rev (dropWhile is_space (rev (dropWhile is_space s)))"

definition lower_char :: "char \<Rightarrow> char" where
  "lower_char c = (let n = (of_char c :: nat) in if 65 \<le> n \<and> n \<le> 90 then char_of (n + 32) else c)"

definition py_lower :: "string \<Rightarrow> string" where
  "py_lower s = map lower_char s"

text \<open>\<open>needle in hay\<close> on strings: a contiguous occurrence.\<close>

fun py_in :: "string \<Rightarrow> string \<Rightarrow> bool" where
  "py_in needle [] = (needle = [])"
| "py_in needle (c # cs) = (take (length needle) (c # cs) = needle \<or> py_in needle cs)"

text \<open>
  \<open>int(s)\<close> on a string, base 10: surrounding white space, an optional sign, then decimal
  digits, where single underscores may stand between digits. Anything else is a
  \<open>ValueError\<close> (\<open>None\<close> here). The interpreter's limit on the number of digits is
  left out, and the codes 28 to 31 are stripped here as white space although \<open>int\<close>
  rejects them.
\<close>

definition is_digit :: "char \<Rightarrow> bool" where
  "is_digit c = (let n = (of_char c :: nat) in 48 \<le> n \<and> n \<le> 57)"

definition digit_val :: "char \<Rightarrow> int" where
  "digit_val c = int (of_char c) - 48"

fun digits_from :: "int \<Rightarrow> string \<Rightarrow> int option" where
  "digits_from acc [] = Some acc"
| "digits_from acc [c] = (if is_digit c then Some (acc * 10 + digit_val c) else None)"
| "digits_from acc (c # d # cs) =
     (if is_digit c then digits_from (acc * 10 + digit_val c) (d # cs)
      else if c = CHR ''_'' \<and> is_digit d then digits_from acc (d # cs)
      else None)"

definition unsigned_int :: "string \<Rightarrow> int option" where
  "unsigned_int s = (case s of [] \<Rightarrow> None
      | c # cs \<Rightarrow> if is_digit c then digits_from 0 (c # cs) else None)"

definition py_int_str :: "string \<Rightarrow> int option" where
  "py_int_str s =
     (case py_strip s of
        [] \<Rightarrow> None
      | c # cs \<Rightarrow>
          if c = CHR ''-'' then map_option uminus (unsigned_int cs)
          else if c = CHR ''+'' then unsigned_int cs
          else unsigned_int (c # cs))"

text \<open>\<open>int(x)\<close> on a decoded value: a float is truncated towards zero.\<close>

fun py_int :: "json \<Rightarrow> int outcome" where
  "py_int (JInt n) = Returns n"
| "py_int (JBool b) = Returns (if b then 1 else 0)"
| "py_int (JFloat r) = Returns (if 0 \<le> r then \<lfloor>r\<rfloor> else \<lceil>r\<rceil>)"
| "py_int (JSpecial NaN) = Raises ValueError"
| "py_int (JSpecial _) = Raises OverflowError"
| "py_int (JStr s) = (case py_int_str s of None \<Rightarrow> Raises ValueError | Some n \<Rightarrow> Returns n)"
| "py_int _ = Raises TypeError"

section \<open>The enumeration sweeper (8bitdo_scraper.py)\<close>

text \<open>
  The body of an HTTP reply: text that \<open>json.loads\<close> decodes to a document, or text it
  rejects.
\<close>

datatype body = JsonText json | NotJson

fun json_loads :: "body \<Rightarrow> json outcome" where
  "json_loads (JsonText j) = Returns j"
| "json_loads NotJson = Raises JSONDecodeError"

text \<open>
  The environment of a run. \<open>net t k\<close> is what \<open>urlopen\<close> and \<open>resp.read\<close> do at the
  \<open>k\<close>-th request (from 0) made for Type \<open>t\<close>; the sweep visits every Type once, so the
  pair identifies the request. \<open>open_w path\<close> is the exception \<open>open(path, "w")\<close>
  raises, if any.
\<close>

record env =
  net :: "int \<Rightarrow> nat \<Rightarrow> body outcome"
  open_w :: "string \<Rightarrow> exn option"

record args =
  start :: int
  max_t :: int
  beta :: bool
  sleep :: real
  timeout :: real
  out :: string

datatype cell = CStr string | CInt int

text \<open>What a run does, in order. \<open>time.sleep\<close> is taken to return; it raises only for
  a negative delay.\<close>

datatype ev =
    Request int bool real
  | Sleep real
  | Warn int exn
  | WriteCsv string "cell list list"
  | Wrote nat string

definition fetch :: "env \<Rightarrow> int \<Rightarrow> bool \<Rightarrow> real \<Rightarrow> nat \<Rightarrow> ev list \<times> json outcome" where
  "fetch e t b tmo k =
     ([Request t b tmo],
      case net e t k of Raises x \<Rightarrow> Raises x | Returns raw \<Rightarrow> json_loads raw)"

text \<open>The \<open>except\<close> clause of \<open>fetch_with_retries\<close>; \<open>socket.timeout\<close> is
  \<open>TimeoutError\<close>.\<close>

fun transient :: "exn \<Rightarrow> bool" where
  "transient (URLError _) = True"
| "transient (HTTPError _) = True"
| "transient (TimeoutError _) = True"
| "transient _ = False"

text \<open>
  The loop \<open>for attempt in range(retries + 1)\<close>, from a given attempt on. Leaving the
  loop without a \<open>return\<close> gives \<open>None\<close>.
\<close>

function attempts_from ::
  "env \<Rightarrow> int \<Rightarrow> bool \<Rightarrow> real \<Rightarrow> int \<Rightarrow> real \<Rightarrow> nat \<Rightarrow> ev list \<times> json outcome" where
  "attempts_from e t b tmo retries wait attempt =
     (if int attempt < retries + 1 then
        (case fetch e t b tmo attempt of
           (evs, Returns j) \<Rightarrow> (evs, Returns j)
         | (evs, Raises x) \<Rightarrow>
             if transient x then
               (if int attempt = retries then (evs @ [Warn t x], Returns JNull)
                else (case attempts_from e t b tmo retries wait (Suc attempt) of
                        (evs', r) \<Rightarrow> (evs @ [Sleep (wait * 2 ^ attempt)] @ evs', r)))
             else (evs, Raises x))
      else ([], Returns JNull))"
  by pat_completeness auto
termination
  by (relation "measure (\<lambda>(e, t, b, tmo, retries, wait, attempt). nat (retries + 1 - int attempt))")
     auto

declare attempts_from.simps [simp del]

definition fetch_with_retries ::
  "env \<Rightarrow> int \<Rightarrow> bool \<Rightarrow> real \<Rightarrow> int \<Rightarrow> real \<Rightarrow> ev list \<times> json outcome" where
  "fetch_with_retries e t b tmo retries wait = attempts_from e t b tmo retries wait 0"

text \<open>\<open>seen.add(p)\<close>. The set is kept as a list without repetitions, in the order of
  insertion. Python does not fix the order in which a set is iterated; it matters only
  to \<open>sorted\<close>, for pairs with the same key, and nothing proved below depends on it.\<close>

definition set_add :: "'a \<Rightarrow> 'a list \<Rightarrow> 'a list" where
  "set_add p seen = (if p \<in> set seen then seen else seen @ [p])"

text \<open>One list item: the pair it contributes, if any.\<close>

definition item_pair :: "json \<Rightarrow> (string \<times> int) option outcome" where
  "item_pair item =
     (case py_get item ''fileName'' of
        Raises x \<Rightarrow> Raises x
      | Returns fname \<Rightarrow>
          (case py_or fname (JStr []) of
             JStr s \<Rightarrow>
               (let name = py_strip s in
                case py_get item ''type'' of
                  Raises x \<Rightarrow> Raises x
                | Returns typ \<Rightarrow>
                    if name \<noteq> [] \<and> typ \<noteq> JNull then
                      (case py_int typ of
                         Raises x \<Rightarrow> Raises x
                       | Returns n \<Rightarrow> Returns (Some (name, n)))
                    else Returns None)
           | _ \<Rightarrow> Raises AttributeError))"

fun add_items :: "(string \<times> int) list \<Rightarrow> json list \<Rightarrow> (string \<times> int) list outcome" where
  "add_items seen [] = Returns seen"
| "add_items seen (item # items) =
     (case item_pair item of
        Raises x \<Rightarrow> Raises x
      | Returns None \<Rightarrow> add_items seen items
      | Returns (Some p) \<Rightarrow> add_items (set_add p seen) items)"

text \<open>The body of the loop over the Type values.\<close>

definition visit ::
  "env \<Rightarrow> args \<Rightarrow> (string \<times> int) list \<Rightarrow> int \<Rightarrow> ev list \<times> (string \<times> int) list outcome" where
  "visit e a seen t =
     (case fetch_with_retries e t (beta a) (timeout a) 2 (2 / 10) of
        (evs, Raises x) \<Rightarrow> (evs, Raises x)
      | (evs, Returns data) \<Rightarrow>
          if \<not> truthy data then (evs, Returns seen)
          else
            (case py_get data ''list'' of
               Raises x \<Rightarrow> (evs, Raises x)
             | Returns l \<Rightarrow>
                 (case py_iter (py_or l (JArr [])) of
                    Raises x \<Rightarrow> (evs, Raises x)
                  | Returns items \<Rightarrow>
                      (case add_items seen items of
                         Raises x \<Rightarrow> (evs, Raises x)
                       | Returns seen' \<Rightarrow> (evs @ [Sleep (sleep a)], Returns seen')))))"

fun sweep ::
  "env \<Rightarrow> args \<Rightarrow> (string \<times> int) list \<Rightarrow> int list \<Rightarrow> ev list \<times> (string \<times> int) list outcome" where
  "sweep e a seen [] = ([], Returns seen)"
| "sweep e a seen (t # ts) =
     (case visit e a seen t of
        (evs, Raises x) \<Rightarrow> (evs, Raises x)
      | (evs, Returns seen') \<Rightarrow>
          (case sweep e a seen' ts of (evs', r) \<Rightarrow> (evs @ evs', r)))"

definition sort_rows :: "(string \<times> int) list \<Rightarrow> (string \<times> int) list" where
  "sort_rows seen = sort_key (\<lambda>x. (py_lower (fst x), snd x)) seen"

definition csv_row :: "string \<times> int \<Rightarrow> cell list" where
  "csv_row x = [CStr (fst x), CInt (snd x)]"

text \<open>The end of \<open>main\<close>: sort, write the file, report.\<close>

definition write_table :: "env \<Rightarrow> args \<Rightarrow> (string \<times> int) list \<Rightarrow> ev list \<times> unit outcome" where
  "write_table e a seen =
     (let rows = sort_rows seen in
      case open_w e (out a) of
        Some x \<Rightarrow> ([], Raises x)
      | None \<Rightarrow>
          ([WriteCsv (out a) ([CStr ''fileName'', CStr ''type''] # map csv_row rows),
            Wrote (length rows) (out a)],
           Returns ()))"

definition scraper_main :: "env \<Rightarrow> args \<Rightarrow> ev list \<times> unit outcome" where
  "scraper_main e a =
     (case sweep e a [] [start a..max_t a] of
        (evs, Raises x) \<Rightarrow> (evs, Raises x)
      | (evs, Returns seen) \<Rightarrow>
          (case write_table e a seen of (evs', r) \<Rightarrow> (evs @ evs', r)))"

text \<open>The script: \<open>if __name__ == "__main__": main()\<close>, with no handler around it.\<close>

definition scraper_script :: "env \<Rightarrow> args \<Rightarrow> ev list \<times> status" where
  "scraper_script e a = (case scraper_main e a of (evs, r) \<Rightarrow> (evs, status_of r))"

section \<open>The interactive flash orchestrator (8bitdo_updater.py)\<close>

record gamepad =
  gname :: string
  gtype :: int

definition GAMEPADS :: "(string \<times> gamepad) list" where
  "GAMEPADS =
    [(''1'', \<lparr>gname = ''Arcade Stick'', gtype = 34\<rparr>),
     (''2'', \<lparr>gname = ''Arcade Stick Receiver'', gtype = 35\<rparr>),
     (''3'', \<lparr>gname = ''F30 GamePad'', gtype = 2\<rparr>),
     (''4'', \<lparr>gname = ''F30 Arcade Stick'', gtype = 5\<rparr>),
     (''5'', \<lparr>gname = ''F30 Pro'', gtype = 1\<rparr>),
     (''6'', \<lparr>gname = ''Lite GamePad'', gtype = 28\<rparr>),
     (''7'', \<lparr>gname = ''M30'', gtype = 23\<rparr>),
     (''8'', \<lparr>gname = ''N30 GamePad'', gtype = 2\<rparr>),
     (''9'', \<lparr>gname = ''N30 NS GamePad'', gtype = 18\<rparr>),
     (''10'', \<lparr>gname = ''N30 Pro'', gtype = 1\<rparr>),
     (''11'', \<lparr>gname = ''N30 Pro 2'', gtype = 13\<rparr>),
     (''12'', \<lparr>gname = ''Pro 2'', gtype = 33\<rparr>),
     (''13'', \<lparr>gname = ''Pro 2 Wired'', gtype = 37\<rparr>),
     (''14'', \<lparr>gname = ''SF30 Pro'', gtype = 9\<rparr>),
     (''15'', \<lparr>gname = ''SN30 GamePad'', gtype = 3\<rparr>),
     (''16'', \<lparr>gname = ''SN30 Pro+'', gtype = 25\<rparr>),
     (''17'', \<lparr>gname = ''SN30 Pro'', gtype = 9\<rparr>)]"

definition DOWNLOAD_URL :: string where
  "DOWNLOAD_URL = ''http://dl.8bitdo.com:8080''"

text \<open>
  A printed line is a list of pieces: literal text and the values an f-string
  interpolates. \<open>Fix1\<close> is a number under the format \<open>:.1f\<close>.
\<close>

datatype piece = Lit string | Val json | Num int | Err exn | Fix1 json

datatype uev =
    Print "piece list"
  | Prompt "piece list"
  | Run "string list"
  | Post int bool
  | Get string
  | WriteFile string
  | Remove string

text \<open>The reply to \<open>requests.post\<close>: the status code and the body.\<close>

record reply =
  status_code :: int
  content :: body

text \<open>
  What the outside world does at each call the orchestrator makes; every one of them is
  made at most once in a run. The lines typed at the prompts are part of the state.
\<close>

record world =
  version_check :: "unit outcome"
  api_post :: "reply outcome"
  http_get :: "int outcome"
  file_write :: "unit outcome"
  devices_json :: "body outcome"
  devices_text :: "string outcome"
  flash_proc :: "int outcome"
  file_remove :: "unit outcome"

record ustate =
  stdin :: "string outcome list"
  trace :: "uev list"

type_synonym 'a prog = "ustate \<Rightarrow> 'a outcome \<times> ustate"

definition ret :: "'a \<Rightarrow> 'a prog" where
  "ret x s = (Returns x, s)"

definition raise :: "exn \<Rightarrow> 'a prog" where
  "raise x s = (Raises x, s)"

definition lift :: "'a outcome \<Rightarrow> 'a prog" where
  "lift r s = (r, s)"

definition andthen :: "'a prog \<Rightarrow> ('a \<Rightarrow> 'b prog) \<Rightarrow> 'b prog" where
  "andthen m f s = (case m s of (Raises x, s') \<Rightarrow> (Raises x, s') | (Returns v, s') \<Rightarrow> f v s')"

text \<open>\<open>try: m except ...\<close>: the handler says which exceptions it takes.\<close>

definition try_except :: "'a prog \<Rightarrow> (exn \<Rightarrow> 'a prog option) \<Rightarrow> 'a prog" where
  "try_except m h s =
     (case m s of
        (Raises x, s') \<Rightarrow> (case h x of None \<Rightarrow> (Raises x, s') | Some k \<Rightarrow> k s')
      | (Returns v, s') \<Rightarrow> (Returns v, s'))"

definition emit :: "uev \<Rightarrow> unit prog" where
  "emit v s = (Returns (), s\<lparr>trace := trace s @ [v]\<rparr>)"

definition print :: "piece list \<Rightarrow> unit prog" where
  "print ps = emit (Print ps)"

text \<open>An outside call: it is recorded, then returns or raises as the world has it.\<close>

definition call :: "uev \<Rightarrow> 'a outcome \<Rightarrow> 'a prog" where
  "call v r s = (r, s\<lparr>trace := trace s @ [v]\<rparr>)"

text \<open>\<open>input(prompt)\<close>: with nothing left to read it raises \<open>EOFError\<close>.\<close>

definition input :: "piece list \<Rightarrow> string prog" where
  "input ps s =
     (case stdin s of
        [] \<Rightarrow> (Raises EOFError, s\<lparr>trace := trace s @ [Prompt ps]\<rparr>)
      | r # rest \<Rightarrow> (r, s\<lparr>stdin := rest, trace := trace s @ [Prompt ps]\<rparr>))"

text \<open>The answer to a yes/no prompt: \<open>input(...).strip().lower() == 'y'\<close>.\<close>

definition says_y :: "string \<Rightarrow> bool" where
  "says_y response = (py_lower (py_strip response) = ''y'')"

definition rule60 :: string where
  "rule60 = replicate 60 (CHR ''='')"

definition tick :: string where
  "tick = [CHR 0xE2, CHR 0x9C, CHR 0x93]"

definition cross :: string where
  "cross = [CHR 0xE2, CHR 0x9C, CHR 0x97]"

definition print_header :: "unit prog" where
  "print_header =
     andthen (print [Lit (''\<newline>'' @ rule60)]) (\<lambda>_.
     andthen (print [Lit ''  8BitDo Firmware Updater'']) (\<lambda>_.
     print [Lit (rule60 @ ''\<newline>'')]))"

fun print_gamepads :: "(string \<times> gamepad) list \<Rightarrow> unit prog" where
  "print_gamepads [] s = ret () s"
| "print_gamepads (kg # kgs) s =
     (case print [Lit ''  '', Lit (fst kg @ replicate (2 - length (fst kg)) (CHR '' '')),
                  Lit ''. '', Lit (gname (snd kg))] s of
        (Raises x, s') \<Rightarrow> (Raises x, s')
      | (Returns _, s') \<Rightarrow> print_gamepads kgs s')"

definition display_gamepads :: "unit prog" where
  "display_gamepads =
     andthen (print [Lit ''Available gamepads:\<newline>'']) (\<lambda>_.
     andthen (print_gamepads GAMEPADS) (\<lambda>_.
     print []))"

function select_gamepad :: "gamepad prog" where
  "select_gamepad s =
     (case input [Lit ''Enter the number of your gamepad: ''] s of
        (Raises x, s') \<Rightarrow> (Raises x, s')
      | (Returns line, s') \<Rightarrow>
          (case map_of GAMEPADS (py_strip line) of
             Some g \<Rightarrow> (Returns g, s')
           | None \<Rightarrow>
               (case print [Lit ''Invalid selection. Please try again.\<newline>''] s' of
                  (Raises x, s'') \<Rightarrow> (Raises x, s'')
                | (Returns _, s'') \<Rightarrow> select_gamepad s'')))"
  by pat_completeness auto
termination
  by (relation "measure (\<lambda>s. length (stdin s))")
     (auto simp: input_def print_def emit_def split: list.splits)

declare select_gamepad.simps [simp del]

text \<open>\<open>x != 1\<close>: the number one, as an int, a float or \<open>True\<close>, is equal to 1.\<close>

fun equals_one :: "json \<Rightarrow> bool" where
  "equals_one (JInt n) = (n = 1)"
| "equals_one (JFloat r) = (r = 1)"
| "equals_one (JBool b) = b"
| "equals_one _ = False"

text \<open>The \<open>except requests.RequestException\<close> clauses.\<close>

fun request_exception :: "exn \<Rightarrow> bool" where
  "request_exception (RequestException _) = True"
| "request_exception _ = False"

text \<open>\<open>response.raise_for_status()\<close> raises an \<open>HTTPError\<close> of \<open>requests\<close>, a
  \<open>RequestException\<close>, on a 4xx or 5xx status.\<close>

definition raise_for_status :: "int \<Rightarrow> unit outcome" where
  "raise_for_status code =
     (if 400 \<le> code \<and> code < 600 then Raises (RequestException ''HTTPError'') else Returns ())"

text \<open>\<open>response.json()\<close>: the decoding error of \<open>requests\<close> is a \<open>RequestException\<close>.\<close>

fun response_json :: "body \<Rightarrow> json outcome" where
  "response_json (JsonText j) = Returns j"
| "response_json NotJson = Raises (RequestException ''JSONDecodeError'')"

definition fetch_firmware_list :: "world \<Rightarrow> int \<Rightarrow> bool \<Rightarrow> json prog" where
  "fetch_firmware_list w gamepad_type include_beta =
     andthen (print [Lit ''\<newline>Fetching firmware list for '', Num gamepad_type, Lit ''...'']) (\<lambda>_.
     try_except
       (andthen (call (Post gamepad_type include_beta) (api_post w)) (\<lambda>response.
        andthen (lift (raise_for_status (status_code response))) (\<lambda>_.
        andthen (lift (response_json (content response))) (\<lambda>data.
        andthen (lift (py_get data ''msgState'')) (\<lambda>st.
        if \<not> equals_one st then
          andthen (lift (py_get_default data ''error'' (JStr ''Unknown error''))) (\<lambda>err.
          andthen (print [Lit ''Error from API: '', Val err]) (\<lambda>_.
          ret JNull))
        else lift (py_get_default data ''list'' (JArr [])))))))
       (\<lambda>x. if request_exception x
             then Some (andthen (print [Lit ''Error fetching firmware list: '', Err x]) (\<lambda>_. ret JNull))
             else None))"

text \<open>\<open>x / 1024\<close>. The \<open>OverflowError\<close> of an integer too large for a float is left
  out.\<close>

fun div_1024 :: "json \<Rightarrow> json outcome" where
  "div_1024 (JInt n) = Returns (JFloat (real_of_int n / 1024))"
| "div_1024 (JBool b) = Returns (JFloat ((if b then 1 else 0) / 1024))"
| "div_1024 (JFloat r) = Returns (JFloat (r / 1024))"
| "div_1024 (JSpecial x) = Returns (JSpecial x)"
| "div_1024 _ = Raises TypeError"

definition print_version :: "nat \<Rightarrow> json \<Rightarrow> unit prog" where
  "print_version idx fw =
     andthen (lift (py_get_default fw ''version'' (JStr ''Unknown''))) (\<lambda>version.
     andthen (lift (py_get_default fw ''date'' (JStr ''Unknown''))) (\<lambda>date.
     andthen (lift (py_get_default fw ''fileSize'' (JInt 0))) (\<lambda>size.
     andthen (lift (div_1024 size)) (\<lambda>size_kb.
     andthen (lift (py_get fw ''beta'')) (\<lambda>b.
     print [Lit ''  '', Num (int idx), Lit ''. Version '', Val version, Lit '' - '', Val date,
            Lit '' ('', Fix1 size_kb, Lit '' KB)'', Lit (if truthy b then '' (BETA)'' else [])])))))"

fun print_versions :: "nat \<Rightarrow> json list \<Rightarrow> unit prog" where
  "print_versions idx [] s = ret () s"
| "print_versions idx (fw # fws) s =
     (case print_version idx fw s of
        (Raises x, s') \<Rightarrow> (Raises x, s')
      | (Returns _, s') \<Rightarrow> print_versions (Suc idx) fws s')"

definition display_firmware_versions :: "json \<Rightarrow> json prog" where
  "display_firmware_versions firmware_list =
     (if \<not> truthy firmware_list then
        andthen (print [Lit ''No firmware versions found.'']) (\<lambda>_. ret JNull)
      else
        andthen (print [Lit ''\<newline>Available firmware versions:\<newline>'']) (\<lambda>_.
        andthen (lift (py_iter firmware_list)) (\<lambda>fws.
        andthen (print_versions 1 fws) (\<lambda>_.
        ret firmware_list))))"

text \<open>\<open>len(x)\<close> and \<open>x[i]\<close> for \<open>0 <= i < len(x)\<close>. A dict with string keys has no
  integer key.\<close>

fun py_len :: "json \<Rightarrow> nat outcome" where
  "py_len (JArr xs) = Returns (length xs)"
| "py_len (JStr s) = Returns (length s)"
| "py_len (JObj kvs) = Returns (length kvs)"
| "py_len _ = Raises TypeError"

fun py_item :: "json \<Rightarrow> nat \<Rightarrow> json outcome" where
  "py_item (JArr xs) i = (if i < length xs then Returns (xs ! i) else Raises IndexError)"
| "py_item (JStr s) i = (if i < length s then Returns (JStr [s ! i]) else Raises IndexError)"
| "py_item (JObj kvs) i = Raises KeyError"
| "py_item _ i = Raises TypeError"

text \<open>One round of the loop of \<open>select_firmware\<close>: \<open>Some\<close> is a \<open>return\<close>, \<open>None\<close>
  goes round again. In \<open>0 <= idx < len(firmware_list)\<close> the length is taken only when
  the first comparison holds.\<close>

definition select_firmware_round :: "json \<Rightarrow> json option prog" where
  "select_firmware_round firmware_list =
     try_except
       (andthen (input [Lit ''\<newline>Enter the number of the firmware to download (or 'q' to quit): '']) (\<lambda>line.
        let choice = py_strip line in
        if py_lower choice = ''q'' then ret (Some JNull)
        else
          andthen (lift (case py_int_str choice of None \<Rightarrow> Raises ValueError | Some n \<Rightarrow> Returns n)) (\<lambda>n.
          let idx = n - 1 in
          andthen (if 0 \<le> idx
                   then andthen (lift (py_len firmware_list)) (\<lambda>len. ret (idx < int len))
                   else ret False) (\<lambda>in_range.
          if in_range then
            andthen (lift (py_item firmware_list (nat idx))) (\<lambda>fw. ret (Some fw))
          else
            andthen (print [Lit ''Invalid selection. Please try again.'']) (\<lambda>_. ret None)))))
       (\<lambda>x. if x = ValueError
             then Some (andthen (print [Lit ''Please enter a valid number.'']) (\<lambda>_. ret None))
             else None)"

function select_firmware :: "json \<Rightarrow> json prog" where
  "select_firmware firmware_list s =
     (case select_firmware_round firmware_list s of
        (Raises x, s') \<Rightarrow> (Raises x, s')
      | (Returns (Some fw), s') \<Rightarrow> (Returns fw, s')
      | (Returns None, s') \<Rightarrow> select_firmware firmware_list s')"
  by pat_completeness auto

termination
proof (relation "measure (\<lambda>(fl, s). length (stdin s))")
  show "wf (measure (\<lambda>(fl, s). length (stdin s)))" by simp
next
  fix firmware_list :: json and s :: ustate and x y x21 x1
  assume "(x, y) = select_firmware_round firmware_list s" and "x = Returns x21" and "x21 = None"
  then have r: "select_firmware_round firmware_list s = (Returns None, y)" by simp
  have "length (stdin y) < length (stdin s)"
    using r
    unfolding select_firmware_round_def try_except_def andthen_def input_def print_def emit_def
      ret_def lift_def Let_def
    by (auto split: list.splits outcome.splits prod.splits if_splits option.splits)
  then show "((firmware_list, y), (firmware_list, s)) \<in> measure (\<lambda>(fl, s). length (stdin s))"
    by simp
qed

declare select_firmware.simps [simp del]

text \<open>\<open>s.split(sep)\<close> for a non-empty separator.\<close>

function split_acc :: "string \<Rightarrow> string \<Rightarrow> string \<Rightarrow> string list" where
  "split_acc sep cur [] = [rev cur]"
| "split_acc sep cur (c # cs) =
     (if sep \<noteq> [] \<and> take (length sep) (c # cs) = sep
      then rev cur # split_acc sep [] (drop (length sep) (c # cs))
      else split_acc sep (c # cur) cs)"
  by pat_completeness auto
termination
  by (relation "measure (\<lambda>(sep, cur, s). length s)") auto

definition py_split :: "string \<Rightarrow> string \<Rightarrow> string list" where
  "py_split sep s = split_acc sep [] s"

text \<open>\<open>Path(p).name\<close>: the last component of the path, where empty components and
  \<open>.\<close> do not count; the empty string when there is none.\<close>

definition path_name :: "string \<Rightarrow> string" where
  "path_name p =
     (let parts = filter (\<lambda>c. c \<noteq> [] \<and> c \<noteq> ''.'') (py_split ''/'' p)
      in if parts = [] then [] else last parts)"

definition download_firmware :: "world \<Rightarrow> json \<Rightarrow> string option prog" where
  "download_firmware w firmware =
     andthen (lift (py_get firmware ''filePathName'')) (\<lambda>file_path.
     if \<not> truthy file_path then
       andthen (print [Lit ''Error: No file path found in firmware data'']) (\<lambda>_. ret None)
     else
       (case file_path of
          JStr p \<Rightarrow>
            (let url = DOWNLOAD_URL @ p; filename = path_name p in
             andthen (print [Lit ''\<newline>Downloading firmware: '', Lit filename, Lit ''...'']) (\<lambda>_.
             try_except
               (andthen (call (Get url) (http_get w)) (\<lambda>code.
                andthen (lift (raise_for_status code)) (\<lambda>_.
                andthen (call (WriteFile filename) (file_write w)) (\<lambda>_.
                andthen (print [Lit (tick @ '' Firmware downloaded successfully: ''), Lit filename]) (\<lambda>_.
                ret (Some filename))))))
               (\<lambda>x. if request_exception x
                     then Some (andthen (print [Lit ''Error downloading firmware: '', Err x]) (\<lambda>_. ret None))
                     else None)))
        | _ \<Rightarrow> raise TypeError))"

text \<open>\<open>x.lower()\<close>: a method of strings only.\<close>

fun lower_of :: "json \<Rightarrow> string outcome" where
  "lower_of (JStr s) = Returns (py_lower s)"
| "lower_of _ = Raises AttributeError"

definition vendor_match :: "string \<Rightarrow> bool" where
  "vendor_match vendor = (py_in ''8bitdo'' vendor \<or> py_in ''8bit'' vendor)"

text \<open>The loop over the devices: \<open>Some\<close> is the \<open>return device_id\<close> inside it.\<close>

fun find_device :: "json list \<Rightarrow> json option prog" where
  "find_device [] s = ret None s"
| "find_device (device # devices) s =
     (case andthen (lift (py_get_default device ''Vendor'' (JStr []))) (\<lambda>v. lift (lower_of v)) s of
        (Raises x, s') \<Rightarrow> (Raises x, s')
      | (Returns vendor, s') \<Rightarrow>
          if vendor_match vendor then
            (andthen (lift (py_get device ''DeviceId'')) (\<lambda>device_id.
             andthen (lift (py_get_default device ''Name'' (JStr ''Unknown''))) (\<lambda>name.
             andthen (lift (py_get_default device ''Version'' (JStr ''Unknown''))) (\<lambda>version.
             andthen (print [Lit (''\<newline>'' @ tick @ '' Found: ''), Val name]) (\<lambda>_.
             andthen (print [Lit ''  Current version: '', Val version]) (\<lambda>_.
             andthen (print [Lit ''  Device ID: '', Val device_id]) (\<lambda>_.
             ret (Some device_id)))))))) s'
          else find_device devices s')"

text \<open>The inner loop of the fallback, over the lines \<open>max(0, i-5) .. min(len, i+10) - 1\<close>.\<close>

fun first_id :: "string list \<Rightarrow> nat list \<Rightarrow> string option" where
  "first_id lines [] = None"
| "first_id lines (j # js) =
     (if py_in ''Device ID:'' (lines ! j)
      then Some (py_strip (py_split ''Device ID:'' (lines ! j) ! 1))
      else first_id lines js)"

fun scan_lines :: "string list \<Rightarrow> nat list \<Rightarrow> string option \<Rightarrow> json prog" where
  "scan_lines lines [] device_id s = ret JNull s"
| "scan_lines lines (i # is) device_id s =
     (if py_in ''8bitdo'' (py_lower (lines ! i)) then
        (let device_id' =
               (case first_id lines [i - 5 ..< min (length lines) (i + 10)] of
                  Some d \<Rightarrow> Some d
                | None \<Rightarrow> device_id)
         in case device_id' of
              Some (c # cs) \<Rightarrow>
                andthen (print [Lit (''\<newline>'' @ tick @ '' Found device ID: ''), Lit (c # cs)]) (\<lambda>_.
                ret (JStr (c # cs))) s
            | _ \<Rightarrow> scan_lines lines is device_id' s)
      else scan_lines lines is device_id s)"

definition get_device_id_fallback :: "world \<Rightarrow> json prog" where
  "get_device_id_fallback w =
     try_except
       (andthen (call (Run [''fwupdmgr'', ''get-devices'']) (devices_text w)) (\<lambda>stdout.
        let lines = py_split ''\<newline>'' stdout in
        scan_lines lines [0 ..< length lines] None))
       (\<lambda>x. if x = CalledProcessError then Some (ret JNull) else None)"

definition get_gamepad_device_id :: "world \<Rightarrow> json prog" where
  "get_gamepad_device_id w =
     andthen (print [Lit ''\<newline>Searching for 8BitDo gamepad...'']) (\<lambda>_.
     try_except
       (andthen (call (Run [''fwupdmgr'', ''get-devices'', ''--json'']) (devices_json w)) (\<lambda>stdout.
        andthen (lift (json_loads stdout)) (\<lambda>devices.
        andthen (lift (py_get_default devices ''Devices'' (JArr []))) (\<lambda>l.
        andthen (lift (py_iter l)) (\<lambda>ds.
        andthen (find_device ds) (\<lambda>found.
        case found of
          Some device_id \<Rightarrow> ret device_id
        | None \<Rightarrow> andthen (print [Lit ''No 8BitDo gamepad found.'']) (\<lambda>_. ret JNull)))))))
       (\<lambda>x. if x = CalledProcessError then
               Some (andthen (print [Lit ''Error running fwupdmgr: '', Err x]) (\<lambda>_.
                     andthen (print [Lit ''Make sure fwupd is installed and you have the necessary permissions.'']) (\<lambda>_.
                     ret JNull)))
             else if x = JSONDecodeError then
               Some (andthen (print [Lit ''Error parsing fwupdmgr output. Trying alternative method...'']) (\<lambda>_.
                     get_device_id_fallback w))
             else None))"

text \<open>The argument list of a sub-process holds strings: any other device id is a
  \<open>TypeError\<close> of \<open>subprocess.run\<close>.\<close>

definition flash_firmware :: "world \<Rightarrow> string \<Rightarrow> json \<Rightarrow> bool prog" where
  "flash_firmware w firmware_file device_id =
     andthen (print [Lit ''\<newline>Flashing firmware to gamepad...'']) (\<lambda>_.
     andthen (print [Lit ''This may take a minute. Please do not disconnect the gamepad.'']) (\<lambda>_.
     andthen (print [Lit ''You may be prompted for your sudo password...\<newline>'']) (\<lambda>_.
     try_except
       (andthen
          (case device_id of
             JStr d \<Rightarrow> call (Run [''sudo'', ''fwupdtool'', ''install-blob'', firmware_file, d]) (flash_proc w)
           | _ \<Rightarrow> raise TypeError) (\<lambda>returncode.
        if returncode = 0 then
          andthen (print [Lit (''\<newline>'' @ tick @ '' Firmware flashed successfully!'')]) (\<lambda>_.
          andthen (print [Lit ''\<newline>The gamepad may restart automatically.'']) (\<lambda>_.
          andthen (print [Lit ''If it doesn't, please manually restart it by disconnecting and reconnecting.'']) (\<lambda>_.
          ret True)))
        else
          andthen (print [Lit (''\<newline>'' @ cross @ '' Error flashing firmware (exit code: ''), Num returncode, Lit '')'']) (\<lambda>_.
          ret False)))
       (\<lambda>x. if x = CalledProcessError then
               Some (andthen (print [Lit ''Error running fwupdtool: '', Err x]) (\<lambda>_. ret False))
             else if x = FileNotFoundError then
               Some (andthen (print [Lit ''Error: fwupdtool not found. Please install fwupd.'']) (\<lambda>_. ret False))
             else None))))"

definition print_instructions :: "unit prog" where
  "print_instructions =
     andthen (print [Lit (''\<newline>'' @ rule60)]) (\<lambda>_.
     andthen (print [Lit ''  INSTRUCTIONS'']) (\<lambda>_.
     andthen (print [Lit rule60]) (\<lambda>_.
     andthen (print [Lit ''\<newline>1. Put your gamepad in bootloader mode:'']) (\<lambda>_.
     andthen (print [Lit ''   - Hold down L1 + R1 + START for 3 seconds'']) (\<lambda>_.
     andthen (print [Lit ''   - A status LED should blink RED'']) (\<lambda>_.
     andthen (print [Lit ''\<newline>2. Connect the gamepad to your computer via USB cable'']) (\<lambda>_.
     andthen (print [Lit ''\<newline>3. Press Enter when ready...'']) (\<lambda>_.
     andthen (print [Lit (rule60 @ ''\<newline>'')]) (\<lambda>_.
     andthen (input []) (\<lambda>_. ret ()))))))))))"

text \<open>The \<open>except OSError\<close> clause: the classes of this model that derive from
  \<open>OSError\<close>.\<close>

fun os_error :: "exn \<Rightarrow> bool" where
  "os_error (OSError _) = True"
| "os_error FileNotFoundError = True"
| "os_error (URLError _) = True"
| "os_error (HTTPError _) = True"
| "os_error (TimeoutError _) = True"
| "os_error (RequestException _) = True"
| "os_error _ = False"

definition cleanup_firmware_file :: "world \<Rightarrow> string \<Rightarrow> unit prog" where
  "cleanup_firmware_file w filename =
     andthen (input [Lit (''\<newline>Do you want to keep the firmware file '' @ [CHR 0x27]), Lit filename,
                     Lit (CHR 0x27 # ''? (y/n): '')]) (\<lambda>response.
     if \<not> says_y response then
       try_except
         (andthen (call (Remove filename) (file_remove w)) (\<lambda>_.
          print [Lit (tick @ '' Removed ''), Lit filename]))
         (\<lambda>x. if os_error x then Some (print [Lit ''Error removing file: '', Err x]) else None)
     else ret ())"

definition preflight :: "world \<Rightarrow> unit prog" where
  "preflight w =
     try_except
       (call (Run [''fwupdmgr'', ''--version'']) (version_check w))
       (\<lambda>x. if x = CalledProcessError \<or> x = FileNotFoundError then
               Some (andthen (print [Lit ''Error: fwupd is not installed or not in PATH.'']) (\<lambda>_.
                     andthen (print [Lit ''Please install fwupd first: sudo apt install fwupd'']) (\<lambda>_.
                     raise (SystemExit 1))))
             else None)"

text \<open>\<open>main\<close>, in three parts. The first runs up to and including step 1 and gives the
  selected gamepad.\<close>

definition choose_gamepad :: "world \<Rightarrow> gamepad prog" where
  "choose_gamepad w =
     andthen print_header (\<lambda>_.
     andthen (preflight w) (\<lambda>_.
     andthen display_gamepads (\<lambda>_.
     andthen select_gamepad (\<lambda>selected_gamepad.
     andthen (print [Lit ''\<newline>Selected: '', Lit (gname selected_gamepad)]) (\<lambda>_.
     ret selected_gamepad)))))"

text \<open>Steps 2 to 4: the firmware list, the choice, the download. It gives the name of
  the downloaded file.\<close>

definition obtain_firmware :: "world \<Rightarrow> gamepad \<Rightarrow> string prog" where
  "obtain_firmware w selected_gamepad =
     andthen (input [Lit ''\<newline>Include beta versions? (y/n): '']) (\<lambda>answer.
     let include_beta = says_y answer in
     andthen (fetch_firmware_list w (gtype selected_gamepad) include_beta) (\<lambda>firmware_list.
     if \<not> truthy firmware_list then
       andthen (print [Lit ''Failed to fetch firmware list. Exiting.'']) (\<lambda>_. raise (SystemExit 1))
     else
       andthen (display_firmware_versions firmware_list) (\<lambda>firmware_list.
       andthen (select_firmware firmware_list) (\<lambda>selected_firmware.
       if \<not> truthy selected_firmware then
         andthen (print [Lit ''Exiting.'']) (\<lambda>_. raise (SystemExit 0))
       else
         andthen (download_firmware w selected_firmware) (\<lambda>firmware_file.
         case firmware_file of
           Some (c # cs) \<Rightarrow> ret (c # cs)
         | _ \<Rightarrow> andthen (print [Lit ''Failed to download firmware. Exiting.'']) (\<lambda>_.
                raise (SystemExit 1)))))))"

text \<open>Steps 5 to 9.\<close>

definition flash_stage :: "world \<Rightarrow> string \<Rightarrow> unit prog" where
  "flash_stage w firmware_file =
     andthen print_instructions (\<lambda>_.
     andthen (get_gamepad_device_id w) (\<lambda>device_id.
     if \<not> truthy device_id then
       andthen (print [Lit ''\<newline>Couldn't find your gamepad. Make sure it's in bootloader mode and connected.'']) (\<lambda>_.
       andthen (cleanup_firmware_file w firmware_file) (\<lambda>_.
       raise (SystemExit 1)))
     else
       andthen (input [Lit ''\<newline>Proceed with firmware update? (y/n): '']) (\<lambda>response.
       if \<not> says_y response then
         andthen (print [Lit ''Update cancelled.'']) (\<lambda>_.
         andthen (cleanup_firmware_file w firmware_file) (\<lambda>_.
         raise (SystemExit 0)))
       else
         andthen (flash_firmware w firmware_file device_id) (\<lambda>success.
         andthen (cleanup_firmware_file w firmware_file) (\<lambda>_.
         if success then
           andthen (print [Lit (''\<newline>'' @ rule60)]) (\<lambda>_.
           andthen (print [Lit ''  Update completed successfully!'']) (\<lambda>_.
           print [Lit (rule60 @ ''\<newline>'')]))
         else
           andthen (print [Lit ''\<newline>Update failed. Please try again or update manually.'']) (\<lambda>_.
           raise (SystemExit 1)))))))"

definition updater_main :: "world \<Rightarrow> unit prog" where
  "updater_main w =
     andthen (choose_gamepad w) (\<lambda>selected_gamepad.
     andthen (obtain_firmware w selected_gamepad) (\<lambda>firmware_file.
     flash_stage w firmware_file))"

text \<open>The script: \<open>main()\<close> under \<open>except KeyboardInterrupt\<close>, started with the lines
  that will be typed.\<close>

definition updater_script :: "world \<Rightarrow> string outcome list \<Rightarrow> uev list \<times> status" where
  "updater_script w typed =
     (case try_except (updater_main w)
             (\<lambda>x. if x = KeyboardInterrupt then
                     Some (andthen (print [Lit ''\<newline>\<newline>Operation cancelled by user.'']) (\<lambda>_.
                           raise (SystemExit 0)))
                   else None)
             \<lparr>stdin = typed, trace = []\<rparr> of
        (r, s) \<Rightarrow> (trace s, status_of r))"

subsection \<open>Sample worlds\<close>

text \<open>A world where everything works and an 8BitDo device is attached, and one where
  the only attached device is of another vendor.\<close>

definition sample_firmware :: json where
  "sample_firmware =
     JObj [(''version'', JStr ''2.05''), (''date'', JStr ''2023-01-10''),
           (''fileSize'', JInt 2048), (''beta'', JBool False),
           (''filePathName'', JStr ''/firmware/pro2_v205.dat'')]"

definition sample_world :: world where
  "sample_world =
     \<lparr>version_check = Returns (),
      api_post = Returns \<lparr>status_code = 200,
        content = JsonText (JObj [(''msgState'', JInt 1), (''list'', JArr [sample_firmware])])\<rparr>,
      http_get = Returns 200,
      file_write = Returns (),
      devices_json = Returns (JsonText (JObj [(''Devices'',
        JArr [JObj [(''Name'', JStr ''8BitDo Pro 2''), (''Vendor'', JStr ''8BitDo''),
                    (''DeviceId'', JStr ''abc123''), (''Version'', JStr ''2.04'')]])])),
      devices_text = Returns [],
      flash_proc = Returns 0,
      file_remove = Returns ()\<rparr>"

definition strangers :: world where
  "strangers = sample_world\<lparr>devices_json := Returns (JsonText (JObj [(''Devices'',
      JArr [JObj [(''Name'', JStr ''Integrated Webcam''), (''Vendor'', JStr ''Intel''),
                  (''DeviceId'', JStr ''f0e1d2'')]])]))\<rparr>"

subsection \<open>A sample sweep\<close>

text \<open>Types 0 to 2: Types 0 and 2 answer, both with a file \<open>b.bin\<close> of type 2; every
  request for Type 1 fails.\<close>

definition sample_item :: "string \<Rightarrow> int \<Rightarrow> json" where
  "sample_item name t = JObj [(''fileName'', JStr name), (''type'', JInt t)]"

definition sample_net :: "int \<Rightarrow> nat \<Rightarrow> body outcome" where
  "sample_net t k =
     (if t = 0 then
        Returns (JsonText (JObj [(''msgState'', JInt 1),
          (''list'', JArr [sample_item ''b.bin'' 2, sample_item ''A.bin'' 5])]))
      else if t = 1 then Raises (URLError ''timed out'')
      else Returns (JsonText (JObj [(''msgState'', JInt 1),
          (''list'', JArr [sample_item ''a.bin'' 1, sample_item '' b.bin '' 2])])))"

definition sample_env :: env where
  "sample_env = \<lparr>net = sample_net, open_w = (\<lambda>path. None)\<rparr>"

definition sample_args :: args where
  "sample_args = \<lparr>start = 0, max_t = 2, beta = False, sleep = 3 / 100, timeout = 10,
                    out = ''8bitdo_filename_type.csv''\<rparr>"

text \<open>Three other endpoints: one whose answer for Type 0 is not JSON, one where Type 0
  times out and every other Type answers \<open>{}\<close>, and one where the user interrupts the
  first request.\<close>

definition garbled_net :: "int \<Rightarrow> nat \<Rightarrow> body outcome" where
  "garbled_net t k = (if t = 0 then Returns NotJson else sample_net t k)"

definition silent_net :: "int \<Rightarrow> nat \<Rightarrow> body outcome" where
  "silent_net t k =
     (if t = 0 then Raises (TimeoutError ''timed out'') else Returns (JsonText (JObj [])))"

definition interrupted_net :: "int \<Rightarrow> nat \<Rightarrow> body outcome" where
  "interrupted_net t k = Raises KeyboardInterrupt"

text \<open>And one where the server resets the connection at every request for Type 1 while
  the response is read: a \<open>ConnectionResetError\<close>, an \<open>OSError\<close> that \<open>urlopen\<close> does
  not wrap in a \<open>URLError\<close>.\<close>

definition reset_net :: "int \<Rightarrow> nat \<Rightarrow> body outcome" where
  "reset_net t k =
     (if t = 1 then Raises (OSError ''Connection reset by peer'') else sample_net t k)"

section \<open>Properties of the sweeper\<close>

lemma fetch_events: "\<exists>r. fetch e t b tmo k = ([Request t b tmo], r)"
  by (simp add: fetch_def)

lemma attempts_shape:
  "int a \<le> retries \<Longrightarrow>
   \<exists>n tl. a + n \<le> nat retries \<and>
     fst (attempts_from e t b tmo retries wait a) =
       Request t b tmo # concat (map (\<lambda>k. [Sleep (wait * 2 ^ (k - 1)), Request t b tmo]) [Suc a..<Suc (a + n)]) @ tl \<and>
     (tl = [] \<or> (\<exists>x. tl = [Warn t x] \<and> a + n = nat retries))"
proof (induction e t b tmo retries wait a rule: attempts_from.induct)
  case (1 e t b tmo retries wait attempt)
  obtain r where f: "fetch e t b tmo attempt = ([Request t b tmo], r)"
    using fetch_events by blast
  let ?R = "Request t b tmo"
  let ?sched = "\<lambda>a n. concat (map (\<lambda>k. [Sleep (wait * 2 ^ (k - 1)), ?R]) [Suc a..<Suc (a + n)])"
  have le: "int attempt < retries + 1" using 1(2) by simp
  show ?case
  proof (cases r)
    case (Returns j)
    have "fst (attempts_from e t b tmo retries wait attempt) = [?R]"
      using f Returns le by (subst attempts_from.simps) simp
    then show ?thesis using 1(2)
      by (intro exI[of _ 0] exI[of _ "[]"]) simp
  next
    case (Raises x)
    show ?thesis
    proof (cases "transient x")
      case False
      have "fst (attempts_from e t b tmo retries wait attempt) = [?R]"
        using f Raises False le by (subst attempts_from.simps) simp
      then show ?thesis using 1(2)
        by (intro exI[of _ 0] exI[of _ "[]"]) simp
    next
      case True
      show ?thesis
      proof (cases "int attempt = retries")
        case last: True
        have "fst (attempts_from e t b tmo retries wait attempt) = [?R, Warn t x]"
          using f Raises True last by (subst attempts_from.simps) simp
        then show ?thesis using last
          by (intro exI[of _ 0] exI[of _ "[Warn t x]"]) auto
      next
        case more: False
        have nxt: "int (Suc attempt) \<le> retries" using 1(2) more by simp
        from 1(1)[OF le f[symmetric] Raises True more nxt]
        obtain n tl where n: "Suc attempt + n \<le> nat retries"
          and sh: "fst (attempts_from e t b tmo retries wait (Suc attempt)) =
                     ?R # ?sched (Suc attempt) n @ tl"
          and tl: "tl = [] \<or> (\<exists>x. tl = [Warn t x] \<and> Suc attempt + n = nat retries)"
          by auto
        have "fst (attempts_from e t b tmo retries wait attempt) =
                ?R # Sleep (wait * 2 ^ attempt) # fst (attempts_from e t b tmo retries wait (Suc attempt))"
          using f Raises True more le
          by (subst attempts_from.simps) (simp split: prod.splits)
        also have "\<dots> = ?R # ?sched attempt (Suc n) @ tl"
        proof -
          have "[Suc attempt..<Suc (attempt + Suc n)] =
                  Suc attempt # [Suc (Suc attempt)..<Suc (Suc attempt + n)]"
            by (subst upt_conv_Cons) simp_all
          then show ?thesis using sh by simp
        qed
        finally show ?thesis using n tl
          by (intro exI[of _ "Suc n"] exI[of _ tl]) auto
      qed
    qed
  qed
qed

lemma attempts_persist:
  assumes "net e t 0 = Raises x0" "transient x0"
      and "net e t 1 = Raises x1" "transient x1"
      and "net e t 2 = Raises x2" "transient x2"
  shows "fetch_with_retries e t b tmo 2 w =
           ([Request t b tmo, Sleep w, Request t b tmo, Sleep (w * 2), Request t b tmo, Warn t x2],
            Returns JNull)"
proof -
  have a2: "attempts_from e t b tmo 2 w 2 = ([Request t b tmo, Warn t x2], Returns JNull)"
    using assms(5,6) by (subst attempts_from.simps) (simp add: fetch_def)
  have a1: "attempts_from e t b tmo 2 w 1 =
              ([Request t b tmo, Sleep (w * 2), Request t b tmo, Warn t x2], Returns JNull)"
    using assms(3,4) a2 by (subst attempts_from.simps) (simp add: fetch_def numeral_2_eq_2)
  show ?thesis
    unfolding fetch_with_retries_def
    using assms(1,2) a1 by (subst attempts_from.simps) (simp add: fetch_def)
qed

lemma attempts_no_write:
  "WriteCsv f rws \<notin> set (fst (attempts_from e t b tmo retries wait k))"
proof (induction e t b tmo retries wait k rule: attempts_from.induct)
  case (1 e t b tmo retries wait attempt)
  show ?case
    apply (subst attempts_from.simps)
    using 1
    apply (auto simp: fetch_def split: outcome.splits prod.splits if_splits)
    done
qed

lemma add_items_returns_any:
  "add_items s items = Returns s1 \<Longrightarrow> \<exists>s2. add_items s' items = Returns s2"
  by (induction items arbitrary: s s' s1) (auto split: outcome.splits option.splits)

lemma visit_returns_any:
  assumes "visit e a s t = (evs, Returns s1)"
  shows "\<exists>s2. visit e a s' t = (evs, Returns s2)"
  using assms
  unfolding visit_def
  by (auto split: prod.splits outcome.splits if_splits dest: add_items_returns_any[where s'=s'])

lemma sweep_returns:
  "\<forall>t \<in> set ts. \<exists>evs s1. visit e a [] t = (evs, Returns s1) \<Longrightarrow>
   \<exists>evs s2. sweep e a s ts = (evs, Returns s2)"
proof (induction ts arbitrary: s)
  case Nil
  then show ?case by simp
next
  case (Cons t ts)
  then obtain evs s1 where "visit e a [] t = (evs, Returns s1)" by auto
  then obtain s2 where v: "visit e a s t = (evs, Returns s2)"
    using visit_returns_any by blast
  from Cons obtain evs' s3 where "sweep e a s2 ts = (evs', Returns s3)"
    by (metis list.set_intros(2))
  with v show ?case by simp
qed

lemma visit_no_write: "WriteCsv f rws \<notin> set (fst (visit e a s t))"
  using attempts_no_write[of f rws e t "beta a" "timeout a" 2 "2/10" 0]
  unfolding visit_def fetch_with_retries_def
  by (auto split: prod.splits outcome.splits if_splits)

lemma sweep_no_write: "WriteCsv f rws \<notin> set (fst (sweep e a s ts))"
proof (induction ts arbitrary: s)
  case Nil
  then show ?case by simp
next
  case (Cons t ts)
  show ?case using visit_no_write[of f rws e a s t] Cons
    by (auto split: prod.splits outcome.splits) (metis fst_conv)
qed

lemma sweep_cons_returns:
  "visit e a s t = (evs, Returns s') \<Longrightarrow>
   sweep e a s (t # ts) = (evs @ fst (sweep e a s' ts), snd (sweep e a s' ts))"
  by (simp split: prod.splits)

lemma sweep_events_mem:
  "sweep e a s ts = (evs, Returns s') \<Longrightarrow> t \<in> set ts \<Longrightarrow>
   \<exists>s1. set (fst (visit e a s1 t)) \<subseteq> set evs"
proof (induction ts arbitrary: s evs)
  case Nil
  then show ?case by simp
next
  case (Cons u ts)
  from Cons.prems(1) obtain ev1 s1 ev2 where
    v: "visit e a s u = (ev1, Returns s1)" and
    r: "sweep e a s1 ts = (ev2, Returns s')" and
    evs: "evs = ev1 @ ev2"
    by (auto split: prod.splits outcome.splits)
  show ?case
  proof (cases "t = u")
    case True
    then show ?thesis using v evs by (intro exI[of _ s]) auto
  next
    case False
    then have "t \<in> set ts" using Cons.prems(2) by simp
    from Cons.IH[OF r this] show ?thesis using evs by auto
  qed
qed

lemma write_table_ok:
  "open_w e (out a) = None \<Longrightarrow>
   write_table e a seen =
     ([WriteCsv (out a) ([CStr ''fileName'', CStr ''type''] # map csv_row (sort_rows seen)),
       Wrote (length (sort_rows seen)) (out a)], Returns ())"
  by (simp add: write_table_def Let_def)

lemma write_table_returns:
  "write_table e a seen = (evs, Returns u) \<Longrightarrow>
   evs = [WriteCsv (out a) ([CStr ''fileName'', CStr ''type''] # map csv_row (sort_rows seen)),
          Wrote (length (sort_rows seen)) (out a)]"
  by (auto simp: write_table_def Let_def split: option.splits)

lemma sort_rows_sorted:
  "sorted_wrt (\<lambda>x y. py_lower (fst x) < py_lower (fst y) \<or>
                      (py_lower (fst x) = py_lower (fst y) \<and> snd x \<le> snd y)) (sort_rows seen)"
proof -
  have "sorted (map (\<lambda>x. (py_lower (fst x), snd x)) (sort_rows seen))"
    by (simp add: sort_rows_def)
  then have "sorted_wrt (\<lambda>x y. (py_lower (fst x), snd x) \<le> (py_lower (fst y), snd y)) (sort_rows seen)"
    by (simp add: sorted_map)
  then show ?thesis
    by (rule sorted_wrt_mono_rel[rotated]) (auto simp: less_eq_prod_def)
qed

lemma sort_rows_length: "length (sort_rows seen) = length seen"
  by (simp add: sort_rows_def)

lemma sort_rows_set: "set (sort_rows seen) = set seen"
  by (simp add: sort_rows_def)

lemma sort_rows_distinct: "distinct (sort_rows seen) = distinct seen"
  by (simp add: sort_rows_def)

lemma set_add_set: "set (set_add p s) = insert p (set s)"
  by (auto simp: set_add_def)

lemma set_add_distinct: "distinct s \<Longrightarrow> distinct (set_add p s)"
  by (simp add: set_add_def)

lemma add_items_set:
  "add_items s items = Returns s' \<Longrightarrow>
   set s' = set s \<union> {p. \<exists>item \<in> set items. item_pair item = Returns (Some p)}"
  by (induction items arbitrary: s) (auto simp: set_add_set split: outcome.splits option.splits)

lemma add_items_distinct:
  "add_items s items = Returns s' \<Longrightarrow> distinct s \<Longrightarrow> distinct s'"
  by (induction items arbitrary: s) (auto simp: set_add_distinct split: outcome.splits option.splits)

lemma visit_distinct:
  "visit e a s t = (evs, Returns s') \<Longrightarrow> distinct s \<Longrightarrow> distinct s'"
  unfolding visit_def
  by (auto split: prod.splits outcome.splits if_splits dest: add_items_distinct)

lemma visit_mono:
  "visit e a s t = (evs, Returns s') \<Longrightarrow> set s \<subseteq> set s'"
  unfolding visit_def
  by (auto split: prod.splits outcome.splits if_splits dest: add_items_set)

lemma visit_collects:
  assumes "visit e a s t = (evs, Returns s')"
      and "snd (fetch_with_retries e t (beta a) (timeout a) 2 (2 / 10)) = Returns (JObj kvs)"
      and "map_of kvs ''list'' = Some (JArr items)"
      and "item \<in> set items" and "item_pair item = Returns (Some p)"
  shows "p \<in> set s'"
proof -
  obtain ev0 where f: "fetch_with_retries e t (beta a) (timeout a) 2 (2 / 10) = (ev0, Returns (JObj kvs))"
    using assms(2) by (cases "fetch_with_retries e t (beta a) (timeout a) 2 (2 / 10)") simp
  have ne: "kvs \<noteq> []" "items \<noteq> []" using assms(3,4) by auto
  have "add_items s items = Returns s'"
    using assms(1) f ne assms(3)
    by (auto simp: visit_def py_get_def py_or_def split: outcome.splits)
  from add_items_set[OF this] show ?thesis using assms(4,5) by auto
qed

lemma sweep_distinct:
  "sweep e a s ts = (evs, Returns s') \<Longrightarrow> distinct s \<Longrightarrow> distinct s'"
  by (induction ts arbitrary: s evs)
     (auto split: prod.splits outcome.splits dest: visit_distinct)

lemma sweep_mono:
  "sweep e a s ts = (evs, Returns s') \<Longrightarrow> set s \<subseteq> set s'"
proof (induction ts arbitrary: s evs)
  case Nil
  then show ?case by simp
next
  case (Cons t ts)
  then show ?case
    by (auto split: prod.splits outcome.splits dest!: visit_mono)
qed

lemma sweep_collects:
  assumes "sweep e a s ts = (evs, Returns s')" and "t \<in> set ts"
      and "snd (fetch_with_retries e t (beta a) (timeout a) 2 (2 / 10)) = Returns (JObj kvs)"
      and "map_of kvs ''list'' = Some (JArr items)"
      and "item \<in> set items" and "item_pair item = Returns (Some p)"
  shows "p \<in> set s'"
  using assms(1,2)
proof (induction ts arbitrary: s evs)
  case Nil
  then show ?case by simp
next
  case (Cons u ts)
  from Cons.prems(1) obtain ev1 s1 ev2 where
    v: "visit e a s u = (ev1, Returns s1)" and
    r: "sweep e a s1 ts = (ev2, Returns s')"
    by (auto split: prod.splits outcome.splits)
  show ?case
  proof (cases "t = u")
    case True
    with v have "p \<in> set s1" using visit_collects assms(3-6) by blast
    then show ?thesis using sweep_mono[OF r] by auto
  next
    case False
    then show ?thesis using Cons r by auto
  qed
qed

lemma count_list_distinct: "distinct xs \<Longrightarrow> x \<in> set xs \<Longrightarrow> count_list xs x = 1"
  by (induction xs) auto

lemma fetch_first_returns:
  "0 \<le> r \<Longrightarrow> net e t 0 = Returns raw \<Longrightarrow>
   fetch_with_retries e t b tmo r w = ([Request t b tmo], json_loads raw)"
  unfolding fetch_with_retries_def
  by (subst attempts_from.simps) (cases raw; simp add: fetch_def)

lemma fetch_first_fatal:
  "0 \<le> r \<Longrightarrow> net e t 0 = Raises x \<Longrightarrow> \<not> transient x \<Longrightarrow>
   fetch_with_retries e t b tmo r w = ([Request t b tmo], Raises x)"
  unfolding fetch_with_retries_def
  by (subst attempts_from.simps) (simp add: fetch_def)

lemma visit_persist:
  assumes "net e t 0 = Raises x0" "transient x0"
      and "net e t 1 = Raises x1" "transient x1"
      and "net e t 2 = Raises x2" "transient x2"
  shows "visit e a seen t =
           ([Request t (beta a) (timeout a), Sleep (2 / 10),
             Request t (beta a) (timeout a), Sleep (4 / 10),
             Request t (beta a) (timeout a), Warn t x2], Returns seen)"
  unfolding visit_def attempts_persist[OF assms] by simp

text \<open>
  What holds for the exceptions the \<open>except\<close> clause names: a Type value whose three
  attempts all fail with one of them does not halt the sweep. Its visit logs the
  failure after the last attempt, leaves the accumulator as it was and returns; the
  sweep goes on with the remaining values; and when no other value of the range
  raises and the output file can be opened, the run writes the table and ends with
  exit code 0.
\<close>

lemma caught_failure_does_not_halt:
  assumes range: "start a \<le> t" "t \<le> max_t a"
      and fails: "net e t 0 = Raises x0" "transient x0"
                 "net e t 1 = Raises x1" "transient x1"
                 "net e t 2 = Raises x2" "transient x2"
  shows "visit e a seen t =
           ([Request t (beta a) (timeout a), Sleep (2 / 10),
             Request t (beta a) (timeout a), Sleep (4 / 10),
             Request t (beta a) (timeout a), Warn t x2], Returns seen)
         \<and> sweep e a seen (t # ts) =
             (fst (visit e a seen t) @ fst (sweep e a seen ts), snd (sweep e a seen ts))
         \<and> ((\<forall>u \<in> {start a..max_t a} - {t}. \<exists>evs s. visit e a [] u = (evs, Returns s)) \<longrightarrow>
            open_w e (out a) = None \<longrightarrow>
            (\<exists>pre rows. scraper_script e a =
               (pre @ [WriteCsv (out a) ([CStr ''fileName'', CStr ''type''] # map csv_row rows),
                       Wrote (length rows) (out a)], Exit 0)
               \<and> Warn t x2 \<in> set pre))"
proof (intro conjI impI)
  note v = visit_persist[OF fails]
  show "visit e a seen t =
           ([Request t (beta a) (timeout a), Sleep (2 / 10),
             Request t (beta a) (timeout a), Sleep (4 / 10),
             Request t (beta a) (timeout a), Warn t x2], Returns seen)"
    by (rule v)
  show "sweep e a seen (t # ts) =
          (fst (visit e a seen t) @ fst (sweep e a seen ts), snd (sweep e a seen ts))"
    using sweep_cons_returns[OF v, where ts = ts] v by simp
  assume others: "\<forall>u \<in> {start a..max_t a} - {t}. \<exists>evs s. visit e a [] u = (evs, Returns s)"
     and writable: "open_w e (out a) = None"
  have "\<forall>u \<in> set [start a..max_t a]. \<exists>evs s. visit e a [] u = (evs, Returns s)"
  proof
    fix u assume "u \<in> set [start a..max_t a]"
    then show "\<exists>evs s. visit e a [] u = (evs, Returns s)"
      using others visit_persist[OF fails, of a "[]"] by (cases "u = t") auto
  qed
  from sweep_returns[OF this]
  obtain evs s' where sw: "sweep e a [] [start a..max_t a] = (evs, Returns s')" by blast
  have "t \<in> set [start a..max_t a]" using range by simp
  from sweep_events_mem[OF sw this]
  obtain s1 where "set (fst (visit e a s1 t)) \<subseteq> set evs" by blast
  then have w: "Warn t x2 \<in> set evs"
    using visit_persist[OF fails, of a s1] by simp
  have "scraper_script e a =
          (evs @ [WriteCsv (out a) ([CStr ''fileName'', CStr ''type''] # map csv_row (sort_rows s')),
                  Wrote (length (sort_rows s')) (out a)], Exit 0)"
    using sw write_table_ok[OF writable, of "s'"]
    by (simp add: scraper_script_def scraper_main_def)
  with w show "\<exists>pre rows. scraper_script e a =
               (pre @ [WriteCsv (out a) ([CStr ''fileName'', CStr ''type''] # map csv_row rows),
                       Wrote (length rows) (out a)], Exit 0)
               \<and> Warn t x2 \<in> set pre"
    by blast
qed

lemma sample_visit_0:
  "visit sample_env sample_args [] 0 =
     ([Request 0 False 10, Sleep (3 / 100)], Returns [(''b.bin'', 2), (''A.bin'', 5)])"
  by (simp add: visit_def fetch_first_returns[where raw = "JsonText (JObj [(''msgState'', JInt 1),
          (''list'', JArr [sample_item ''b.bin'' 2, sample_item ''A.bin'' 5])])"]
        sample_env_def sample_net_def sample_args_def sample_item_def py_get_def py_or_def
        item_pair_def py_strip_def is_space_def set_add_def)

lemma sample_visit_2:
  "\<exists>evs s. visit sample_env sample_args [] 2 = (evs, Returns s)"
  by (simp add: visit_def fetch_first_returns[where raw = "JsonText (JObj [(''msgState'', JInt 1),
          (''list'', JArr [sample_item ''a.bin'' 1, sample_item '' b.bin '' 2])])"]
        sample_env_def sample_net_def sample_args_def sample_item_def py_get_def py_or_def
        item_pair_def py_strip_def is_space_def set_add_def)

lemma caught_failure_sample:
  "visit sample_env sample_args [] 1 =
     ([Request 1 False 10, Sleep (2 / 10), Request 1 False 10, Sleep (4 / 10),
       Request 1 False 10, Warn 1 (URLError ''timed out'')], Returns [])
   \<and> (\<exists>pre rows. scraper_script sample_env sample_args =
         (pre @ [WriteCsv ''8bitdo_filename_type.csv''
                   ([CStr ''fileName'', CStr ''type''] # map csv_row rows),
                 Wrote (length rows) ''8bitdo_filename_type.csv''], Exit 0)
         \<and> Warn 1 (URLError ''timed out'') \<in> set pre)"
proof -
  have n: "net sample_env 1 0 = Raises (URLError ''timed out'')"
          "net sample_env 1 1 = Raises (URLError ''timed out'')"
          "net sample_env 1 2 = Raises (URLError ''timed out'')"
    by (simp_all add: sample_env_def sample_net_def)
  have tr: "transient (URLError ''timed out'')" by simp
  have r: "start sample_args \<le> 1" "1 \<le> max_t sample_args"
    by (simp_all add: sample_args_def)
  have others: "\<forall>u \<in> {start sample_args..max_t sample_args} - {1}.
                  \<exists>evs s. visit sample_env sample_args [] u = (evs, Returns s)"
  proof
    fix u assume "u \<in> {start sample_args..max_t sample_args} - {1}"
    then have "u = 0 \<or> u = 2" by (auto simp: sample_args_def)
    then show "\<exists>evs s. visit sample_env sample_args [] u = (evs, Returns s)"
      using sample_visit_0 sample_visit_2 by auto
  qed
  have w: "open_w sample_env (out sample_args) = None" by (simp add: sample_env_def)
  from caught_failure_does_not_halt[OF r n(1) tr n(2) tr n(3) tr, of "[]" "[]"] others w
  show ?thesis by (simp add: sample_args_def)
qed

text \<open>
  C1. At a network failure that is not of the classes the \<open>except\<close> clause names the
  code does not do what the claim says: with the connection reset at every request for
  Type 1, and Types 0 and 2 answering, the run makes one request for Type 1, does not
  retry it and logs nothing, and ends in a traceback; Type 2 is never asked and no
  file is written.
\<close>

theorem connection_reset_halts_sweep:
  "scraper_script \<lparr>net = reset_net, open_w = (\<lambda>path. None)\<rparr> sample_args =
     ([Request 0 False 10, Sleep (3 / 100), Request 1 False 10],
      Traceback (OSError ''Connection reset by peer''))"
proof -
  let ?e = "\<lparr>net = reset_net, open_w = (\<lambda>path. None)\<rparr>"
  have v0: "visit ?e sample_args [] 0 =
     ([Request 0 False 10, Sleep (3 / 100)], Returns [(''b.bin'', 2), (''A.bin'', 5)])"
    by (simp add: visit_def fetch_first_returns[where raw = "JsonText (JObj [(''msgState'', JInt 1),
          (''list'', JArr [sample_item ''b.bin'' 2, sample_item ''A.bin'' 5])])"]
        reset_net_def sample_net_def sample_args_def sample_item_def py_get_def py_or_def
        item_pair_def py_strip_def is_space_def set_add_def)
  have v1: "visit ?e sample_args [(''b.bin'', 2), (''A.bin'', 5)] 1 =
     ([Request 1 False 10], Raises (OSError ''Connection reset by peer''))"
    by (simp add: visit_def fetch_first_fatal[where x = "OSError ''Connection reset by peer''"]
        reset_net_def sample_args_def)
  have r: "[start sample_args..max_t sample_args] = [0, 1, 2]"
    by (simp add: sample_args_def upto.simps)
  show ?thesis
    unfolding scraper_script_def scraper_main_def r
    by (simp add: v0 v1)
qed

lemma sched_requests:
  "length (filter (\<lambda>v. v = Request t b tmo)
     (concat (map (\<lambda>k. [Sleep (wait * 2 ^ (k - 1)), Request t b tmo]) ks))) = length ks"
  by (induction ks) auto

text \<open>
  C4. With base wait \<open>w\<close> and retry maximum \<open>r\<close>, what one call of
  \<open>fetch_with_retries\<close> does is: the first request, then \<open>n\<close> retries for some
  \<open>n\<close> of at most \<open>r\<close>, the \<open>k\<close>-th retry right after a wait of \<open>w * 2^(k-1)\<close>,
  and a warning at the very end only when all \<open>r\<close> retries were used. So there are
  \<open>n + 1\<close> requests, at most \<open>r + 1\<close>.
\<close>

theorem backoff_schedule:
  assumes "0 \<le> retries"
  shows "\<exists>n tl. n \<le> nat retries \<and>
           fst (fetch_with_retries e t b tmo retries wait) =
             Request t b tmo #
             concat (map (\<lambda>k. [Sleep (wait * 2 ^ (k - 1)), Request t b tmo]) [1..<Suc n]) @ tl \<and>
           (tl = [] \<or> (\<exists>x. tl = [Warn t x] \<and> n = nat retries)) \<and>
           length (filter (\<lambda>v. v = Request t b tmo) (fst (fetch_with_retries e t b tmo retries wait)))
             = Suc n"
proof -
  have "int 0 \<le> retries" using assms by simp
  from attempts_shape[OF this, of e t b tmo wait]
  obtain n tl where n: "n \<le> nat retries"
    and sh: "fst (attempts_from e t b tmo retries wait 0) =
               Request t b tmo #
               concat (map (\<lambda>k. [Sleep (wait * 2 ^ (k - 1)), Request t b tmo]) [Suc 0..<Suc n]) @ tl"
    and tl: "tl = [] \<or> (\<exists>x. tl = [Warn t x] \<and> n = nat retries)"
    by auto
  define sched where
    "sched = concat (map (\<lambda>k. [Sleep (wait * 2 ^ (k - 1)), Request t b tmo]) [Suc 0..<Suc n])"
  have "length (filter (\<lambda>v. v = Request t b tmo) sched) = length [Suc 0..<Suc n]"
    unfolding sched_def by (rule sched_requests)
  moreover have "filter (\<lambda>v. v = Request t b tmo) tl = []" using tl by auto
  ultimately have "length (filter (\<lambda>v. v = Request t b tmo) (Request t b tmo # sched @ tl)) = Suc n"
    by simp
  then have "length (filter (\<lambda>v. v = Request t b tmo) (fst (attempts_from e t b tmo retries wait 0))) = Suc n"
    unfolding sh sched_def .
  with n sh tl show ?thesis
    unfolding fetch_with_retries_def by (intro exI[of _ n] exI[of _ tl]) simp
qed

theorem backoff_schedule_witness:
  "\<exists>n tl. n \<le> nat 2 \<and>
           fst (fetch_with_retries sample_env 1 False 10 2 (2 / 10)) =
             Request 1 False 10 #
             concat (map (\<lambda>k. [Sleep (2 / 10 * 2 ^ (k - 1)), Request 1 False 10]) [1..<Suc n]) @ tl \<and>
           (tl = [] \<or> (\<exists>x. tl = [Warn 1 x] \<and> n = nat 2)) \<and>
           length (filter (\<lambda>v. v = Request 1 False 10) (fst (fetch_with_retries sample_env 1 False 10 2 (2 / 10))))
             = Suc n"
proof -
  have "(0::int) \<le> 2" by simp
  from backoff_schedule[OF this, of sample_env 1 False 10 "2 / 10"] show ?thesis .
qed

text \<open>
  C5. When \<open>main\<close> returns, the last things it did are to write the file and to
  report: the file holds the header row \<open>fileName, type\<close> followed by the accumulated
  pairs, each once, ordered by lower-cased file name and then by type; nothing else
  was written before.
\<close>

theorem table_sorted_under_header:
  assumes "scraper_main e a = (evs, Returns u)"
  shows "\<exists>pre seen rows.
           sweep e a [] [start a..max_t a] = (pre, Returns seen) \<and>
           evs = pre @ [WriteCsv (out a) ([CStr ''fileName'', CStr ''type''] # map csv_row rows),
                        Wrote (length rows) (out a)] \<and>
           (\<forall>f c. WriteCsv f c \<notin> set pre) \<and>
           set rows = set seen \<and> length rows = length seen \<and>
           sorted_wrt (\<lambda>x y. py_lower (fst x) < py_lower (fst y) \<or>
                              (py_lower (fst x) = py_lower (fst y) \<and> snd x \<le> snd y)) rows"
proof -
  from assms obtain pre seen tl where
    sw: "sweep e a [] [start a..max_t a] = (pre, Returns seen)" and
    wt: "write_table e a seen = (tl, Returns u)" and
    evs: "evs = pre @ tl"
    by (auto simp: scraper_main_def split: prod.splits outcome.splits)
  have nw: "\<forall>f c. WriteCsv f c \<notin> set pre"
    using sweep_no_write[of _ _ e a "[]" "[start a..max_t a]"] sw by simp
  show ?thesis
    using sw evs write_table_returns[OF wt] nw sort_rows_set[of seen] sort_rows_length[of seen]
      sort_rows_sorted[of seen]
    by (intro exI[of _ pre] exI[of _ seen] exI[of _ "sort_rows seen"]) simp
qed

lemma sample_run:
  "scraper_main sample_env sample_args =
     ([Request 0 False 10, Sleep (3 / 100),
       Request 1 False 10, Sleep (2 / 10), Request 1 False 10, Sleep (4 / 10),
       Request 1 False 10, Warn 1 (URLError ''timed out''),
       Request 2 False 10, Sleep (3 / 100),
       WriteCsv ''8bitdo_filename_type.csv''
         [[CStr ''fileName'', CStr ''type''], [CStr ''a.bin'', CInt 1],
          [CStr ''A.bin'', CInt 5], [CStr ''b.bin'', CInt 2]],
       Wrote 3 ''8bitdo_filename_type.csv''], Returns ())"
proof -
  have v1: "\<And>seen. visit sample_env sample_args seen 1 =
         ([Request 1 False 10, Sleep (2 / 10), Request 1 False 10, Sleep (4 / 10),
           Request 1 False 10, Warn 1 (URLError ''timed out'')], Returns seen)"
    using visit_persist[of sample_env 1 "URLError ''timed out''" "URLError ''timed out''"
            "URLError ''timed out''" sample_args]
    by (simp add: sample_env_def sample_net_def sample_args_def)
  have v2: "visit sample_env sample_args [(''b.bin'', 2), (''A.bin'', 5)] 2 =
     ([Request 2 False 10, Sleep (3 / 100)],
      Returns [(''b.bin'', 2), (''A.bin'', 5), (''a.bin'', 1)])"
    by (simp add: visit_def fetch_first_returns[where raw = "JsonText (JObj [(''msgState'', JInt 1),
          (''list'', JArr [sample_item ''a.bin'' 1, sample_item '' b.bin '' 2])])"]
        sample_env_def sample_net_def sample_args_def sample_item_def py_get_def py_or_def
        item_pair_def py_strip_def is_space_def set_add_def)
  have sw: "sweep sample_env sample_args [] [0, 1, 2] =
     ([Request 0 False 10, Sleep (3 / 100),
       Request 1 False 10, Sleep (2 / 10), Request 1 False 10, Sleep (4 / 10),
       Request 1 False 10, Warn 1 (URLError ''timed out''),
       Request 2 False 10, Sleep (3 / 100)],
      Returns [(''b.bin'', 2), (''A.bin'', 5), (''a.bin'', 1)])"
    by (simp add: sample_visit_0 v1 v2)
  have r: "[start sample_args..max_t sample_args] = [0, 1, 2]"
    by (simp add: sample_args_def upto.simps)
  have srt: "sort_rows [(''b.bin'', 2), (''A.bin'', 5), (''a.bin'', 1)] =
               [(''a.bin'', 1), (''A.bin'', 5), (''b.bin'', 2)]"
    by code_simp
  show ?thesis
    unfolding scraper_main_def r sw
    by (simp add: write_table_def srt csv_row_def sample_env_def sample_args_def)
qed

theorem table_sorted_under_header_witness:
  "\<exists>pre seen rows.
     sweep sample_env sample_args [] [start sample_args..max_t sample_args] = (pre, Returns seen) \<and>
     [Request 0 False 10, Sleep (3 / 100),
      Request 1 False 10, Sleep (2 / 10), Request 1 False 10, Sleep (4 / 10),
      Request 1 False 10, Warn 1 (URLError ''timed out''),
      Request 2 False 10, Sleep (3 / 100),
      WriteCsv ''8bitdo_filename_type.csv''
        [[CStr ''fileName'', CStr ''type''], [CStr ''a.bin'', CInt 1],
         [CStr ''A.bin'', CInt 5], [CStr ''b.bin'', CInt 2]],
      Wrote 3 ''8bitdo_filename_type.csv''] =
       pre @ [WriteCsv (out sample_args) ([CStr ''fileName'', CStr ''type''] # map csv_row rows),
              Wrote (length rows) (out sample_args)] \<and>
     (\<forall>f c. WriteCsv f c \<notin> set pre) \<and>
     set rows = set seen \<and> length rows = length seen \<and>
     sorted_wrt (\<lambda>x y. py_lower (fst x) < py_lower (fst y) \<or>
                        (py_lower (fst x) = py_lower (fst y) \<and> snd x \<le> snd y)) rows"
  by (rule table_sorted_under_header[OF sample_run])

text \<open>
  C6. Adding a pair that is already in the accumulator changes nothing, and when the
  responses for two different Type values of the range both hold an item that gives
  the pair \<open>p\<close>, the table written has no repeated row and exactly one row for \<open>p\<close>.
\<close>

theorem duplicate_pair_written_once:
  assumes run: "scraper_main e a = (evs, Returns u)"
      and t1: "start a \<le> t1" "t1 \<le> max_t a"
      and r1: "snd (fetch_with_retries e t1 (beta a) (timeout a) 2 (2 / 10)) = Returns (JObj kvs1)"
              "map_of kvs1 ''list'' = Some (JArr items1)"
              "item1 \<in> set items1" "item_pair item1 = Returns (Some p)"
      and t2: "start a \<le> t2" "t2 \<le> max_t a" "t2 \<noteq> t1"
      and r2: "snd (fetch_with_retries e t2 (beta a) (timeout a) 2 (2 / 10)) = Returns (JObj kvs2)"
              "map_of kvs2 ''list'' = Some (JArr items2)"
              "item2 \<in> set items2" "item_pair item2 = Returns (Some p)"
  shows "set_add p (set_add p seen) = set_add p seen
         \<and> (\<exists>pre rows.
              evs = pre @ [WriteCsv (out a) ([CStr ''fileName'', CStr ''type''] # map csv_row rows),
                           Wrote (length rows) (out a)] \<and>
              distinct rows \<and> count_list rows p = 1)"
proof
  show "set_add p (set_add p seen) = set_add p seen"
    by (simp add: set_add_def)
  from run obtain pre acc tl where
    sw: "sweep e a [] [start a..max_t a] = (pre, Returns acc)" and
    wt: "write_table e a acc = (tl, Returns u)" and
    evs: "evs = pre @ tl"
    by (auto simp: scraper_main_def split: prod.splits outcome.splits)
  have d: "distinct acc" using sweep_distinct[OF sw] by simp
  have "t1 \<in> set [start a..max_t a]" using t1 by simp
  from sweep_collects[OF sw this r1] have "p \<in> set acc" .
  then have "count_list (sort_rows acc) p = 1" "distinct (sort_rows acc)"
    using d by (simp_all add: count_list_distinct sort_rows_distinct sort_rows_set)
  then show "\<exists>pre rows.
              evs = pre @ [WriteCsv (out a) ([CStr ''fileName'', CStr ''type''] # map csv_row rows),
                           Wrote (length rows) (out a)] \<and>
              distinct rows \<and> count_list rows p = 1"
    using evs write_table_returns[OF wt] by (intro exI[of _ pre] exI[of _ "sort_rows acc"]) simp
qed

theorem duplicate_pair_written_once_witness:
  "set_add (''b.bin'', 2 :: int) (set_add (''b.bin'', 2) []) = set_add (''b.bin'', 2) []
   \<and> (\<exists>pre rows.
       [Request 0 False 10, Sleep (3 / 100),
        Request 1 False 10, Sleep (2 / 10), Request 1 False 10, Sleep (4 / 10),
        Request 1 False 10, Warn 1 (URLError ''timed out''),
        Request 2 False 10, Sleep (3 / 100),
        WriteCsv ''8bitdo_filename_type.csv''
          [[CStr ''fileName'', CStr ''type''], [CStr ''a.bin'', CInt 1],
           [CStr ''A.bin'', CInt 5], [CStr ''b.bin'', CInt 2]],
        Wrote 3 ''8bitdo_filename_type.csv''] =
          pre @ [WriteCsv (out sample_args) ([CStr ''fileName'', CStr ''type''] # map csv_row rows),
                 Wrote (length rows) (out sample_args)] \<and>
        distinct rows \<and> count_list rows (''b.bin'', 2) = 1)"
proof -
  have r0: "snd (fetch_with_retries sample_env 0 (beta sample_args) (timeout sample_args) 2 (2 / 10)) =
              Returns (JObj [(''msgState'', JInt 1),
                (''list'', JArr [sample_item ''b.bin'' 2, sample_item ''A.bin'' 5])])"
    by (simp add: fetch_first_returns[where raw = "JsonText (JObj [(''msgState'', JInt 1),
          (''list'', JArr [sample_item ''b.bin'' 2, sample_item ''A.bin'' 5])])"]
        sample_env_def sample_net_def)
  have r2: "snd (fetch_with_retries sample_env 2 (beta sample_args) (timeout sample_args) 2 (2 / 10)) =
              Returns (JObj [(''msgState'', JInt 1),
                (''list'', JArr [sample_item ''a.bin'' 1, sample_item '' b.bin '' 2])])"
    by (simp add: fetch_first_returns[where raw = "JsonText (JObj [(''msgState'', JInt 1),
          (''list'', JArr [sample_item ''a.bin'' 1, sample_item '' b.bin '' 2])])"]
        sample_env_def sample_net_def)
  have l0: "map_of [(''msgState'', JInt 1),
                (''list'', JArr [sample_item ''b.bin'' 2, sample_item ''A.bin'' 5])] ''list'' =
              Some (JArr [sample_item ''b.bin'' 2, sample_item ''A.bin'' 5])"
    by simp
  have l2: "map_of [(''msgState'', JInt 1),
                (''list'', JArr [sample_item ''a.bin'' 1, sample_item '' b.bin '' 2])] ''list'' =
              Some (JArr [sample_item ''a.bin'' 1, sample_item '' b.bin '' 2])"
    by simp
  have m0: "sample_item ''b.bin'' 2 \<in> set [sample_item ''b.bin'' 2, sample_item ''A.bin'' 5]"
    by simp
  have m2: "sample_item '' b.bin '' 2 \<in> set [sample_item ''a.bin'' 1, sample_item '' b.bin '' 2]"
    by simp
  have p0: "item_pair (sample_item ''b.bin'' 2) = Returns (Some (''b.bin'', 2))"
    by (simp add: item_pair_def sample_item_def py_get_def py_or_def py_strip_def is_space_def)
  have p2: "item_pair (sample_item '' b.bin '' 2) = Returns (Some (''b.bin'', 2))"
    by (simp add: item_pair_def sample_item_def py_get_def py_or_def py_strip_def is_space_def)
  have b: "start sample_args \<le> 0" "0 \<le> max_t sample_args"
          "start sample_args \<le> 2" "2 \<le> max_t sample_args" "(2::int) \<noteq> 0"
    by (simp_all add: sample_args_def)
  from duplicate_pair_written_once[OF sample_run b(1,2) r0 l0 m0 p0 b(3,4,5) r2 l2 m2 p2, of "[]"]
  show ?thesis .
qed

text \<open>
  C2. At a response body that is not JSON the code does not do what the claim says:
  with such a body for Type 0 and good ones for Types 1 and 2, the run ends in a
  traceback of \<open>JSONDecodeError\<close> right after the first request; Types 1 and 2 are
  never asked and no file is written.
\<close>

theorem invalid_json_halts_sweep:
  "scraper_script \<lparr>net = garbled_net, open_w = (\<lambda>path. None)\<rparr> sample_args =
     ([Request 0 False 10], Traceback JSONDecodeError)"
  by (simp add: scraper_script_def scraper_main_def sample_args_def upto.simps visit_def
        fetch_first_returns[where raw = NotJson] garbled_net_def)

text \<open>
  C3. At a failed and at an empty response the code does not sleep: with Type 0
  timing out three times and Type 1 answering \<open>{}\<close>, the only sleeps of the run are
  the two backoff waits; the delay between requests (3/100 s here) is never applied.
\<close>

theorem no_delay_after_failed_or_empty:
  "scraper_script \<lparr>net = silent_net, open_w = (\<lambda>path. None)\<rparr> (sample_args\<lparr>max_t := 1\<rparr>) =
     ([Request 0 False 10, Sleep (2 / 10), Request 0 False 10, Sleep (4 / 10),
       Request 0 False 10, Warn 0 (TimeoutError ''timed out''),
       Request 1 False 10,
       WriteCsv ''8bitdo_filename_type.csv'' [[CStr ''fileName'', CStr ''type'']],
       Wrote 0 ''8bitdo_filename_type.csv''], Exit 0)
   \<and> sleep (sample_args\<lparr>max_t := 1\<rparr>) = 3 / 100"
proof -
  let ?e = "\<lparr>net = silent_net, open_w = (\<lambda>path. None)\<rparr>"
  let ?a = "sample_args\<lparr>max_t := 1\<rparr>"
  have v0: "visit ?e ?a [] 0 =
         ([Request 0 False 10, Sleep (2 / 10), Request 0 False 10, Sleep (4 / 10),
           Request 0 False 10, Warn 0 (TimeoutError ''timed out'')], Returns [])"
    using visit_persist[of ?e 0 "TimeoutError ''timed out''" "TimeoutError ''timed out''"
            "TimeoutError ''timed out''" ?a "[]"]
    by (simp add: silent_net_def sample_args_def)
  have v1: "visit ?e ?a [] 1 = ([Request 1 False 10], Returns [])"
    by (simp add: visit_def fetch_first_returns[where raw = "JsonText (JObj [])"]
          silent_net_def sample_args_def)
  have r: "[start ?a..max_t ?a] = [0, 1]"
    by (simp add: sample_args_def upto.simps)
  have o: "out sample_args = ''8bitdo_filename_type.csv''" "sleep sample_args = 3 / 100"
    by (simp_all add: sample_args_def)
  show ?thesis
    unfolding scraper_script_def scraper_main_def r
    by (simp add: v0 v1 write_table_def sort_rows_def o)
qed

section \<open>Properties of the orchestrator\<close>

lemmas prog_defs = andthen_def try_except_def input_def print_def emit_def call_def
  lift_def ret_def raise_def

lemma script_of_main:
  "updater_main w \<lparr>stdin = typed, trace = []\<rparr> = (Raises (SystemExit c), s) \<Longrightarrow>
   updater_script w typed = (trace s, Exit c)"
  by (simp add: updater_script_def try_except_def)

lemma fetch_stage_fails:
  assumes "stdin s = Returns answer # rest"
      and "api_post w = Returns r"
      and "raise_for_status (status_code r) = Returns ()"
      and "content r = JsonText (JObj kvs)"
      and "py_get (JObj kvs) ''msgState'' = Returns st"
      and "py_get_default (JObj kvs) ''error'' (JStr ''Unknown error'') = Returns err"
      and "py_get_default (JObj kvs) ''list'' (JArr []) = Returns fl"
      and "\<not> equals_one st \<or> \<not> truthy fl"
  shows "obtain_firmware w g s =
           (Raises (SystemExit 1),
            s\<lparr>stdin := rest,
              trace := trace s @
                [Prompt [Lit ''\<newline>Include beta versions? (y/n): ''],
                 Print [Lit ''\<newline>Fetching firmware list for '', Num (gtype g), Lit ''...''],
                 Post (gtype g) (says_y answer)] @
                (if \<not> equals_one st then [Print [Lit ''Error from API: '', Val err]] else []) @
                [Print [Lit ''Failed to fetch firmware list. Exiting.'']]\<rparr>)"
  using assms
  unfolding obtain_firmware_def fetch_firmware_list_def prog_defs Let_def
  by (auto simp del: py_get_default.simps)

text \<open>
  C7. Once a gamepad is chosen, a reply of the endpoint that is a JSON object whose
  \<open>msgState\<close> is not 1, or whose \<open>list\<close> is empty or missing, ends the run with exit
  code 1. The run asked the endpoint once and downloaded nothing: after the beta
  prompt it printed the fetching line, posted one request, printed the API's error when
  the state was not 1, and printed the failure line.
\<close>

theorem failed_fetch_is_fatal:
  assumes "choose_gamepad w \<lparr>stdin = typed, trace = []\<rparr> = (Returns g, s)"
      and "stdin s = Returns answer # rest"
      and "api_post w = Returns r"
      and "raise_for_status (status_code r) = Returns ()"
      and "content r = JsonText (JObj kvs)"
      and "py_get (JObj kvs) ''msgState'' = Returns st"
      and "py_get_default (JObj kvs) ''error'' (JStr ''Unknown error'') = Returns err"
      and "py_get_default (JObj kvs) ''list'' (JArr []) = Returns fl"
      and "\<not> equals_one st \<or> \<not> truthy fl"
  shows "updater_script w typed =
           (trace s @
              [Prompt [Lit ''\<newline>Include beta versions? (y/n): ''],
               Print [Lit ''\<newline>Fetching firmware list for '', Num (gtype g), Lit ''...''],
               Post (gtype g) (says_y answer)] @
              (if \<not> equals_one st then [Print [Lit ''Error from API: '', Val err]] else []) @
              [Print [Lit ''Failed to fetch firmware list. Exiting.'']],
            Exit 1)"
proof -
  note f = fetch_stage_fails[OF assms(2-9), of g]
  have "updater_main w \<lparr>stdin = typed, trace = []\<rparr> =
          (Raises (SystemExit 1), snd (obtain_firmware w g s))"
    using assms(1) f by (simp add: updater_main_def andthen_def)
  from script_of_main[OF this] f show ?thesis
    by simp
qed

lemma print_gamepads_returns:
  "\<exists>tr. print_gamepads kgs s = (Returns (), s\<lparr>trace := trace s @ tr\<rparr>)"
proof (induction kgs arbitrary: s)
  case Nil
  show ?case by (intro exI[of _ "[]"]) (simp add: ret_def)
next
  case (Cons kg kgs)
  let ?p = "Print [Lit ''  '', Lit (fst kg @ replicate (2 - length (fst kg)) (CHR '' '')),
                   Lit ''. '', Lit (gname (snd kg))]"
  from Cons[of "s\<lparr>trace := trace s @ [?p]\<rparr>"] obtain tr where
    "print_gamepads kgs (s\<lparr>trace := trace s @ [?p]\<rparr>) =
       (Returns (), s\<lparr>trace := trace s @ [?p]\<rparr>\<lparr>trace := trace (s\<lparr>trace := trace s @ [?p]\<rparr>) @ tr\<rparr>)"
    by blast
  then show ?case
    by (intro exI[of _ "?p # tr"]) (simp add: print_def emit_def)
qed

lemma choose_12:
  assumes "version_check w = Returns ()"
  shows "\<exists>tr. choose_gamepad w \<lparr>stdin = Returns ''12'' # rest, trace = []\<rparr> =
                 (Returns \<lparr>gname = ''Pro 2'', gtype = 33\<rparr>, \<lparr>stdin = rest, trace = tr\<rparr>)"
proof -
  have m: "map_of GAMEPADS (py_strip ''12'') = Some \<lparr>gname = ''Pro 2'', gtype = 33\<rparr>"
    by (simp add: GAMEPADS_def py_strip_def is_space_def)
  obtain tr where pg: "\<And>s. print_gamepads GAMEPADS s = (Returns (), s\<lparr>trace := trace s @ tr s\<rparr>)"
    using print_gamepads_returns by metis
  show ?thesis
    using assms m
    unfolding choose_gamepad_def print_header_def preflight_def display_gamepads_def
    by (simp add: prog_defs pg select_gamepad.simps)
qed

theorem failed_fetch_is_fatal_witness:
  "\<exists>pre. updater_script
      (sample_world\<lparr>api_post := Returns \<lparr>status_code = 200,
         content = JsonText (JObj [(''msgState'', JInt 1), (''list'', JArr [])])\<rparr>\<rparr>)
      [Returns ''12'', Returns ''n''] =
     (pre @ [Prompt [Lit ''\<newline>Include beta versions? (y/n): ''],
             Print [Lit ''\<newline>Fetching firmware list for '', Num 33, Lit ''...''],
             Post 33 False,
             Print [Lit ''Failed to fetch firmware list. Exiting.'']],
      Exit 1)"
proof -
  let ?w = "sample_world\<lparr>api_post := Returns \<lparr>status_code = 200,
         content = JsonText (JObj [(''msgState'', JInt 1), (''list'', JArr [])])\<rparr>\<rparr>"
  have "version_check ?w = Returns ()" by (simp add: sample_world_def)
  from choose_12[OF this, of "[Returns ''n'']"] obtain tr where
    c: "choose_gamepad ?w \<lparr>stdin = [Returns ''12'', Returns ''n''], trace = []\<rparr> =
          (Returns \<lparr>gname = ''Pro 2'', gtype = 33\<rparr>, \<lparr>stdin = [Returns ''n''], trace = tr\<rparr>)"
    by blast
  have i: "stdin \<lparr>stdin = [Returns ''n''], trace = tr\<rparr> = Returns ''n'' # []" by simp
  have a: "api_post ?w = Returns \<lparr>status_code = 200,
         content = JsonText (JObj [(''msgState'', JInt 1), (''list'', JArr [])])\<rparr>" by simp
  have st: "raise_for_status (status_code \<lparr>status_code = 200,
         content = JsonText (JObj [(''msgState'', JInt 1), (''list'', JArr [])])\<rparr>) = Returns ()"
    by (simp add: raise_for_status_def)
  have ct: "content \<lparr>status_code = 200,
         content = JsonText (JObj [(''msgState'', JInt 1), (''list'', JArr [])])\<rparr> =
         JsonText (JObj [(''msgState'', JInt 1), (''list'', JArr [])])" by simp
  have g1: "py_get (JObj [(''msgState'', JInt 1), (''list'', JArr [])]) ''msgState'' = Returns (JInt 1)"
    by (simp add: py_get_def)
  have g2: "py_get_default (JObj [(''msgState'', JInt 1), (''list'', JArr [])]) ''error''
              (JStr ''Unknown error'') = Returns (JStr ''Unknown error'')"
    by simp
  have g3: "py_get_default (JObj [(''msgState'', JInt 1), (''list'', JArr [])]) ''list'' (JArr [])
              = Returns (JArr [])"
    by simp
  have e: "\<not> equals_one (JInt 1) \<or> \<not> truthy (JArr [])" by simp
  have ny: "\<not> says_y ''n''"
    by (simp add: says_y_def py_strip_def py_lower_def is_space_def lower_char_def)
  from failed_fetch_is_fatal[OF c i a st ct g1 g2 g3 e] ny
  show ?thesis by simp
qed

lemma sample_path_name: "path_name ''/firmware/pro2_v205.dat'' = ''pro2_v205.dat''"
  by (simp add: path_name_def py_split_def)

lemma sample_choice_1: "py_int_str (py_strip ''1'') = Some 1"
  by (simp add: py_int_str_def py_strip_def is_space_def unsigned_int_def is_digit_def digit_val_def)

lemma acquire_sample:
  assumes "version_check w = Returns ()" and "api_post w = api_post sample_world"
      and "http_get w = Returns 200" and "file_write w = Returns ()"
  shows "\<exists>tr. andthen (choose_gamepad w) (obtain_firmware w)
                \<lparr>stdin = Returns ''12'' # Returns ''n'' # Returns ''1'' # rest, trace = []\<rparr> =
              (Returns ''pro2_v205.dat'', \<lparr>stdin = rest, trace = tr\<rparr>)"
proof -
  from choose_12[OF assms(1), of "Returns ''n'' # Returns ''1'' # rest"] obtain tr where
    c: "choose_gamepad w \<lparr>stdin = Returns ''12'' # Returns ''n'' # Returns ''1'' # rest, trace = []\<rparr> =
          (Returns \<lparr>gname = ''Pro 2'', gtype = 33\<rparr>,
           \<lparr>stdin = Returns ''n'' # Returns ''1'' # rest, trace = tr\<rparr>)"
    by blast
  have ny: "\<not> says_y ''n''"
    by (simp add: says_y_def py_strip_def py_lower_def is_space_def lower_char_def)
  have nq: "py_lower (py_strip ''1'') \<noteq> ''q''"
    by (simp add: py_strip_def py_lower_def is_space_def lower_char_def)
  have "\<exists>tr'. obtain_firmware w \<lparr>gname = ''Pro 2'', gtype = 33\<rparr>
          \<lparr>stdin = Returns ''n'' # Returns ''1'' # rest, trace = tr\<rparr> =
          (Returns ''pro2_v205.dat'', \<lparr>stdin = rest, trace = tr'\<rparr>)"
    unfolding obtain_firmware_def fetch_firmware_list_def display_firmware_versions_def
      download_firmware_def
    using assms(2-4) ny nq
    by (simp add: prog_defs sample_world_def sample_firmware_def raise_for_status_def py_get_def
          print_version_def select_firmware.simps select_firmware_round_def sample_choice_1
          sample_path_name Let_def)
  then show ?thesis using c by (simp add: andthen_def)
qed

lemma andthen_assoc:
  "andthen (andthen m f) g = andthen m (\<lambda>x. andthen (f x) g)"
  by (rule ext) (simp add: andthen_def split: prod.splits outcome.splits)

lemma find_device_none:
  assumes "\<forall>d \<in> set ds. \<exists>v. py_get_default d ''Vendor'' (JStr []) = Returns (JStr v) \<and>
                               \<not> vendor_match (py_lower v)"
  shows "find_device ds s = (Returns None, s)"
  using assms
proof (induction ds)
  case Nil
  then show ?case by (simp add: ret_def)
next
  case (Cons d ds)
  then obtain v where v: "py_get_default d ''Vendor'' (JStr []) = Returns (JStr v)"
    and nm: "\<not> vendor_match (py_lower v)" by auto
  have "find_device (d # ds) s = find_device ds s"
    using v nm by (simp add: andthen_def lift_def del: py_get_default.simps)
  then show ?case using Cons by simp
qed

lemma discovery_none:
  assumes "devices_json w = Returns (JsonText (JObj kvs))"
      and "py_get_default (JObj kvs) ''Devices'' (JArr []) = Returns (JArr ds)"
      and "\<forall>d \<in> set ds. \<exists>v. py_get_default d ''Vendor'' (JStr []) = Returns (JStr v) \<and>
                               \<not> vendor_match (py_lower v)"
  shows "get_gamepad_device_id w s =
           (Returns JNull,
            s\<lparr>trace := trace s @
               [Print [Lit ''\<newline>Searching for 8BitDo gamepad...''],
                Run [''fwupdmgr'', ''get-devices'', ''--json''],
                Print [Lit ''No 8BitDo gamepad found.'']]\<rparr>)"
  using assms(1,2) find_device_none[OF assms(3)]
  unfolding get_gamepad_device_id_def prog_defs
  by (simp del: py_get_default.simps)

lemma cleanup_keep:
  assumes "stdin s = Returns response # rest" and "says_y response"
  shows "cleanup_firmware_file w f s =
           (Returns (),
            s\<lparr>stdin := rest,
              trace := trace s @
                [Prompt [Lit (''\<newline>Do you want to keep the firmware file '' @ [CHR 0x27]), Lit f,
                         Lit (CHR 0x27 # ''? (y/n): '')]]\<rparr>)"
  using assms unfolding cleanup_firmware_file_def prog_defs by simp

lemma cleanup_delete:
  assumes "stdin s = Returns response # rest" and "\<not> says_y response"
      and "file_remove w = Returns ()"
  shows "cleanup_firmware_file w f s =
           (Returns (),
            s\<lparr>stdin := rest,
              trace := trace s @
                [Prompt [Lit (''\<newline>Do you want to keep the firmware file '' @ [CHR 0x27]), Lit f,
                         Lit (CHR 0x27 # ''? (y/n): '')],
                 Remove f,
                 Print [Lit (tick @ '' Removed ''), Lit f]]\<rparr>)"
  using assms unfolding cleanup_firmware_file_def prog_defs by simp

lemma cleanup_delete_fails:
  assumes "stdin s = Returns response # rest" and "\<not> says_y response"
      and "file_remove w = Raises x" and "os_error x"
  shows "cleanup_firmware_file w f s =
           (Returns (),
            s\<lparr>stdin := rest,
              trace := trace s @
                [Prompt [Lit (''\<newline>Do you want to keep the firmware file '' @ [CHR 0x27]), Lit f,
                         Lit (CHR 0x27 # ''? (y/n): '')],
                 Remove f,
                 Print [Lit ''Error removing file: '', Err x]]\<rparr>)"
  using assms unfolding cleanup_firmware_file_def prog_defs by simp

lemma cleanup_returns:
  assumes "stdin s = Returns response # rest"
      and "file_remove w = Returns () \<or> (\<exists>x. file_remove w = Raises x \<and> os_error x)"
  shows "\<exists>tl. cleanup_firmware_file w f s =
           (Returns (),
            s\<lparr>stdin := rest,
              trace := trace s @
                Prompt [Lit (''\<newline>Do you want to keep the firmware file '' @ [CHR 0x27]), Lit f,
                        Lit (CHR 0x27 # ''? (y/n): '')] # tl\<rparr>) \<and>
           (\<forall>argv. Run argv \<notin> set tl)"
proof (cases "says_y response")
  case True
  from cleanup_keep[OF assms(1) this] show ?thesis by (intro exI[of _ "[]"]) simp
next
  case False
  from assms(2) show ?thesis
  proof
    assume "file_remove w = Returns ()"
    from cleanup_delete[OF assms(1) False this] show ?thesis
      by (intro exI[of _ "[Remove f, Print [Lit (tick @ '' Removed ''), Lit f]]"]) simp
  next
    assume "\<exists>x. file_remove w = Raises x \<and> os_error x"
    then obtain x where "file_remove w = Raises x" "os_error x" by blast
    from cleanup_delete_fails[OF assms(1) False this] show ?thesis
      by (intro exI[of _ "[Remove f, Print [Lit ''Error removing file: '', Err x]]"]) simp
  qed
qed

lemma instructions_run:
  assumes "stdin s = Returns line # rest"
  shows "print_instructions s =
           (Returns (),
            s\<lparr>stdin := rest,
              trace := trace s @
                [Print [Lit (''\<newline>'' @ rule60)],
                 Print [Lit ''  INSTRUCTIONS''],
                 Print [Lit rule60],
                 Print [Lit ''\<newline>1. Put your gamepad in bootloader mode:''],
                 Print [Lit ''   - Hold down L1 + R1 + START for 3 seconds''],
                 Print [Lit ''   - A status LED should blink RED''],
                 Print [Lit ''\<newline>2. Connect the gamepad to your computer via USB cable''],
                 Print [Lit ''\<newline>3. Press Enter when ready...''],
                 Print [Lit (rule60 @ ''\<newline>'')],
                 Prompt []]\<rparr>)"
  using assms unfolding print_instructions_def prog_defs by simp

text \<open>
  C8. When the device list of \<open>fwupdmgr get-devices --json\<close> has no entry whose vendor,
  in lower case, contains the brand token, the run that got as far as a downloaded
  file \<open>f\<close> says that no gamepad was found, asks whether to keep \<open>f\<close>, and ends with
  exit code 1. The only program it started after the download is the device listing:
  the flashing tool is never run.
\<close>

theorem no_device_exits_with_failure:
  assumes reach: "andthen (choose_gamepad w) (obtain_firmware w) \<lparr>stdin = typed, trace = []\<rparr> =
                    (Returns f, s)"
      and lines: "stdin s = Returns enter # Returns response # rest"
      and listing: "devices_json w = Returns (JsonText (JObj kvs))"
      and devices: "py_get_default (JObj kvs) ''Devices'' (JArr []) = Returns (JArr ds)"
      and nomatch: "\<forall>d \<in> set ds. \<exists>v. py_get_default d ''Vendor'' (JStr []) = Returns (JStr v) \<and>
                                     \<not> vendor_match (py_lower v)"
      and removal: "file_remove w = Returns () \<or> (\<exists>x. file_remove w = Raises x \<and> os_error x)"
  shows "\<exists>tr. updater_script w typed = (trace s @ tr, Exit 1) \<and>
           Print [Lit ''No 8BitDo gamepad found.''] \<in> set tr \<and>
           Print [Lit ''\<newline>Couldn't find your gamepad. Make sure it's in bootloader mode and connected.'']
             \<in> set tr \<and>
           Prompt [Lit (''\<newline>Do you want to keep the firmware file '' @ [CHR 0x27]), Lit f,
                   Lit (CHR 0x27 # ''? (y/n): '')] \<in> set tr \<and>
           (\<forall>argv. Run argv \<in> set tr \<longrightarrow> argv = [''fwupdmgr'', ''get-devices'', ''--json''])"
proof -
  let ?instr = "[Print [Lit (''\<newline>'' @ rule60)],
                 Print [Lit ''  INSTRUCTIONS''],
                 Print [Lit rule60],
                 Print [Lit ''\<newline>1. Put your gamepad in bootloader mode:''],
                 Print [Lit ''   - Hold down L1 + R1 + START for 3 seconds''],
                 Print [Lit ''   - A status LED should blink RED''],
                 Print [Lit ''\<newline>2. Connect the gamepad to your computer via USB cable''],
                 Print [Lit ''\<newline>3. Press Enter when ready...''],
                 Print [Lit (rule60 @ ''\<newline>'')],
                 Prompt []]"
  let ?found = "[Print [Lit ''\<newline>Searching for 8BitDo gamepad...''],
                Run [''fwupdmgr'', ''get-devices'', ''--json''],
                Print [Lit ''No 8BitDo gamepad found.''],
                Print [Lit ''\<newline>Couldn't find your gamepad. Make sure it's in bootloader mode and connected.'']]"
  let ?keep = "Prompt [Lit (''\<newline>Do you want to keep the firmware file '' @ [CHR 0x27]), Lit f,
                       Lit (CHR 0x27 # ''? (y/n): '')]"
  let ?s3 = "s\<lparr>stdin := Returns response # rest, trace := trace s @ ?instr @ ?found\<rparr>"
  have "stdin ?s3 = Returns response # rest" by simp
  from cleanup_returns[OF this removal, of f] obtain tl where
    cl: "cleanup_firmware_file w f ?s3 =
           (Returns (), ?s3\<lparr>stdin := rest, trace := trace ?s3 @ ?keep # tl\<rparr>)"
    and norun: "\<forall>argv. Run argv \<notin> set tl"
    by blast
  have fs: "flash_stage w f s =
          (Raises (SystemExit 1), s\<lparr>stdin := rest, trace := trace s @ ?instr @ ?found @ ?keep # tl\<rparr>)"
    unfolding flash_stage_def
    using instructions_run[OF lines] discovery_none[OF listing devices nomatch] cl
    by (simp add: andthen_def print_def emit_def raise_def)
  have "updater_main w = andthen (andthen (choose_gamepad w) (obtain_firmware w)) (flash_stage w)"
    by (simp add: updater_main_def andthen_assoc)
  then have "updater_main w \<lparr>stdin = typed, trace = []\<rparr> = flash_stage w f s"
    using reach by (simp add: andthen_def)
  from script_of_main[OF this[unfolded fs]] norun
  show ?thesis
    by (intro exI[of _ "?instr @ ?found @ ?keep # tl"]) auto
qed

theorem no_device_exits_with_failure_witness:
  "\<exists>pre tr. updater_script strangers
       [Returns ''12'', Returns ''n'', Returns ''1'', Returns [], Returns ''n''] = (pre @ tr, Exit 1) \<and>
     Print [Lit ''No 8BitDo gamepad found.''] \<in> set tr \<and>
     Print [Lit ''\<newline>Couldn't find your gamepad. Make sure it's in bootloader mode and connected.'']
       \<in> set tr \<and>
     Prompt [Lit (''\<newline>Do you want to keep the firmware file '' @ [CHR 0x27]), Lit ''pro2_v205.dat'',
             Lit (CHR 0x27 # ''? (y/n): '')] \<in> set tr \<and>
     (\<forall>argv. Run argv \<notin> set tr \<or> argv = [''fwupdmgr'', ''get-devices'', ''--json''])"
proof -
  have w: "version_check strangers = Returns ()" "api_post strangers = api_post sample_world"
          "http_get strangers = Returns 200" "file_write strangers = Returns ()"
    by (simp_all add: strangers_def sample_world_def)
  from acquire_sample[OF w, of "[Returns [], Returns ''n'']"] obtain tr0 where
    reach: "andthen (choose_gamepad strangers) (obtain_firmware strangers)
              \<lparr>stdin = [Returns ''12'', Returns ''n'', Returns ''1'', Returns [], Returns ''n''], trace = []\<rparr> =
            (Returns ''pro2_v205.dat'', \<lparr>stdin = [Returns [], Returns ''n''], trace = tr0\<rparr>)"
    by auto
  have lines: "stdin \<lparr>stdin = [Returns [], Returns ''n''], trace = tr0\<rparr> = Returns [] # Returns ''n'' # []"
    by simp
  have listing: "devices_json strangers = Returns (JsonText (JObj [(''Devices'',
      JArr [JObj [(''Name'', JStr ''Integrated Webcam''), (''Vendor'', JStr ''Intel''),
                  (''DeviceId'', JStr ''f0e1d2'')]])]))"
    by (simp add: strangers_def)
  have devices: "py_get_default (JObj [(''Devices'',
      JArr [JObj [(''Name'', JStr ''Integrated Webcam''), (''Vendor'', JStr ''Intel''),
                  (''DeviceId'', JStr ''f0e1d2'')]])]) ''Devices'' (JArr []) =
      Returns (JArr [JObj [(''Name'', JStr ''Integrated Webcam''), (''Vendor'', JStr ''Intel''),
                  (''DeviceId'', JStr ''f0e1d2'')]])"
    by simp
  have nomatch: "\<forall>d \<in> set [JObj [(''Name'', JStr ''Integrated Webcam''), (''Vendor'', JStr ''Intel''),
                  (''DeviceId'', JStr ''f0e1d2'')]].
       \<exists>v. py_get_default d ''Vendor'' (JStr []) = Returns (JStr v) \<and> \<not> vendor_match (py_lower v)"
    by (simp add: vendor_match_def py_lower_def lower_char_def)
  have removal: "file_remove strangers = Returns () \<or>
                 (\<exists>x. file_remove strangers = Raises x \<and> os_error x)"
    by (simp add: strangers_def sample_world_def)
  from no_device_exits_with_failure[OF reach lines listing devices nomatch removal]
  show ?thesis by auto
qed

lemma lower_char_y: "lower_char c = CHR ''y'' \<longleftrightarrow> c = CHR ''y'' \<or> c = CHR ''Y''"
proof
  assume l: "lower_char c = CHR ''y''"
  show "c = CHR ''y'' \<or> c = CHR ''Y''"
  proof (cases "65 \<le> (of_char c :: nat) \<and> (of_char c :: nat) \<le> 90")
    case False
    then show ?thesis using l by (auto simp: lower_char_def Let_def)
  next
    case True
    then have "char_of ((of_char c :: nat) + 32) = CHR ''y''"
      using l by (simp add: lower_char_def Let_def)
    then have "(of_char (char_of ((of_char c :: nat) + 32) :: char) :: nat) = of_char (CHR ''y'')"
      by simp
    then have "((of_char c :: nat) + 32) mod 256 = 121"
      by (simp add: of_char_of)
    then have "(of_char c :: nat) = 89" using True by simp
    then have "char_of (of_char c :: nat) = (char_of (89 :: nat) :: char)" by simp
    moreover have "(char_of (89 :: nat) :: char) = CHR ''Y''" by code_simp
    ultimately show ?thesis by simp
  qed
next
  have a: "lower_char (CHR ''y'') = CHR ''y''" by code_simp
  have b: "lower_char (CHR ''Y'') = CHR ''y''" by code_simp
  assume "c = CHR ''y'' \<or> c = CHR ''Y''"
  then show "lower_char c = CHR ''y''" using a b by blast
qed

lemma not_space_y: "\<not> is_space (CHR ''y'')" "\<not> is_space (CHR ''Y'')"
  by (simp_all add: is_space_def)

lemma strip_single:
  assumes "py_strip r = [c]"
  shows "\<exists>l t. r = l @ c # t \<and> (\<forall>x \<in> set l. is_space x) \<and> (\<forall>x \<in> set t. is_space x)"
proof -
  let ?m = "dropWhile is_space r"
  from assms have "rev (dropWhile is_space (rev ?m)) = [c]"
    by (simp add: py_strip_def)
  then have d: "dropWhile is_space (rev ?m) = [c]"
    by simp
  have "rev ?m = takeWhile is_space (rev ?m) @ dropWhile is_space (rev ?m)"
    by simp
  then have "rev ?m = takeWhile is_space (rev ?m) @ [c]"
    unfolding d .
  then have "rev (rev ?m) = rev (takeWhile is_space (rev ?m) @ [c])"
    by (rule arg_cong)
  then have m: "?m = c # rev (takeWhile is_space (rev ?m))"
    by simp
  have "r = takeWhile is_space r @ ?m"
    by simp
  then have r: "r = takeWhile is_space r @ c # rev (takeWhile is_space (rev ?m))"
    using m by simp
  have l: "\<forall>x \<in> set (takeWhile is_space r). is_space x"
    by (auto dest: set_takeWhileD)
  have t: "\<forall>x \<in> set (rev (takeWhile is_space (rev ?m))). is_space x"
    by (auto dest: set_takeWhileD)
  from r l t show ?thesis
    by (intro exI[of _ "takeWhile is_space r"]
              exI[of _ "rev (takeWhile is_space (rev (dropWhile is_space r)))"] conjI)
qed

lemma strip_padded:
  assumes "\<forall>x \<in> set l. is_space x" and "\<forall>x \<in> set t. is_space x" and "\<not> is_space c"
  shows "py_strip (l @ c # t) = [c]"
proof -
  have "dropWhile is_space (l @ c # t) = c # t"
    using assms(1,3) by (simp add: dropWhile_append2)
  moreover have "dropWhile is_space (rev t @ [c]) = dropWhile is_space [c]"
    by (rule dropWhile_append2) (use assms(2) in auto)
  moreover have "dropWhile is_space [c] = [c]"
    using assms(3) by simp
  ultimately show ?thesis by (simp add: py_strip_def)
qed

lemma says_y_iff:
  "says_y r \<longleftrightarrow>
     (\<exists>l c t. r = l @ c # t \<and> (c = CHR ''y'' \<or> c = CHR ''Y'') \<and>
               (\<forall>x \<in> set l. is_space x) \<and> (\<forall>x \<in> set t. is_space x))"
proof
  assume "says_y r"
  then have "map lower_char (py_strip r) = [CHR ''y'']"
    by (simp add: says_y_def py_lower_def)
  then obtain c where c: "py_strip r = [c]" and lc: "lower_char c = CHR ''y''"
    by (cases "py_strip r") auto
  from strip_single[OF c] obtain l t where
    "r = l @ c # t" "\<forall>x \<in> set l. is_space x" "\<forall>x \<in> set t. is_space x"
    by blast
  moreover have "c = CHR ''y'' \<or> c = CHR ''Y''" using lc by (simp add: lower_char_y)
  ultimately show "\<exists>l c t. r = l @ c # t \<and> (c = CHR ''y'' \<or> c = CHR ''Y'') \<and>
               (\<forall>x \<in> set l. is_space x) \<and> (\<forall>x \<in> set t. is_space x)"
    by (intro exI[of _ l] exI[of _ c] exI[of _ t]) simp
next
  assume "\<exists>l c t. r = l @ c # t \<and> (c = CHR ''y'' \<or> c = CHR ''Y'') \<and>
               (\<forall>x \<in> set l. is_space x) \<and> (\<forall>x \<in> set t. is_space x)"
  then obtain l c t where r: "r = l @ c # t" and c: "c = CHR ''y'' \<or> c = CHR ''Y''"
    and l: "\<forall>x \<in> set l. is_space x" and t: "\<forall>x \<in> set t. is_space x"
    by blast
  have nc: "\<not> is_space c" using c not_space_y by blast
  have "py_strip r = [c]" unfolding r by (rule strip_padded[OF l t nc])
  moreover have "lower_char c = CHR ''y''" using c by (simp add: lower_char_y)
  ultimately show "says_y r" by (simp add: says_y_def py_lower_def)
qed

lemma flash_stage_after_discovery:
  assumes "andthen print_instructions (\<lambda>_. get_gamepad_device_id w) s0 = (Returns dev, s1)"
      and "truthy dev"
  shows "flash_stage w f s0 =
           andthen (input [Lit ''\<newline>Proceed with firmware update? (y/n): '']) (\<lambda>response.
             if \<not> says_y response then
               andthen (print [Lit ''Update cancelled.'']) (\<lambda>_.
               andthen (cleanup_firmware_file w f) (\<lambda>_.
               raise (SystemExit 0)))
             else
               andthen (flash_firmware w f dev) (\<lambda>success.
               andthen (cleanup_firmware_file w f) (\<lambda>_.
               if success then
                 andthen (print [Lit (''\<newline>'' @ rule60)]) (\<lambda>_.
                 andthen (print [Lit ''  Update completed successfully!'']) (\<lambda>_.
                 print [Lit (rule60 @ ''\<newline>'')]))
               else
                 andthen (print [Lit ''\<newline>Update failed. Please try again or update manually.'']) (\<lambda>_.
                 raise (SystemExit 1))))) s1"
proof -
  have "flash_stage w f =
          andthen (andthen print_instructions (\<lambda>_. get_gamepad_device_id w)) (\<lambda>device_id.
            if \<not> truthy device_id then
              andthen (print [Lit ''\<newline>Couldn't find your gamepad. Make sure it's in bootloader mode and connected.'']) (\<lambda>_.
              andthen (cleanup_firmware_file w f) (\<lambda>_.
              raise (SystemExit 1)))
            else
              andthen (input [Lit ''\<newline>Proceed with firmware update? (y/n): '']) (\<lambda>response.
              if \<not> says_y response then
                andthen (print [Lit ''Update cancelled.'']) (\<lambda>_.
                andthen (cleanup_firmware_file w f) (\<lambda>_.
                raise (SystemExit 0)))
              else
                andthen (flash_firmware w f device_id) (\<lambda>success.
                andthen (cleanup_firmware_file w f) (\<lambda>_.
                if success then
                  andthen (print [Lit (''\<newline>'' @ rule60)]) (\<lambda>_.
                  andthen (print [Lit ''  Update completed successfully!'']) (\<lambda>_.
                  print [Lit (rule60 @ ''\<newline>'')]))
                else
                  andthen (print [Lit ''\<newline>Update failed. Please try again or update manually.'']) (\<lambda>_.
                  raise (SystemExit 1))))))"
    unfolding flash_stage_def andthen_assoc ..
  then show ?thesis
    using assms by (simp add: andthen_def[of "andthen print_instructions (\<lambda>_. get_gamepad_device_id w)"])
qed

lemma decline_cancels:
  assumes no: "\<not> says_y response"
      and disc: "andthen print_instructions (\<lambda>_. get_gamepad_device_id w) s0 = (Returns dev, s1)"
      and dev: "truthy dev"
      and lines: "stdin s1 = Returns response # Returns keep # rest"
      and rm: "file_remove w = Returns ()"
  shows "flash_stage w f s0 =
           (Raises (SystemExit 0),
            s1\<lparr>stdin := rest,
               trace := trace s1 @
                 [Prompt [Lit ''\<newline>Proceed with firmware update? (y/n): ''],
                  Print [Lit ''Update cancelled.''],
                  Prompt [Lit (''\<newline>Do you want to keep the firmware file '' @ [CHR 0x27]), Lit f,
                          Lit (CHR 0x27 # ''? (y/n): '')]] @
                 (if says_y keep then []
                  else [Remove f, Print [Lit (tick @ '' Removed ''), Lit f]])\<rparr>)"
proof -
  let ?s2 = "s1\<lparr>stdin := Returns keep # rest,
                 trace := trace s1 @ [Prompt [Lit ''\<newline>Proceed with firmware update? (y/n): ''],
                                      Print [Lit ''Update cancelled.'']]\<rparr>"
  have i: "stdin ?s2 = Returns keep # rest" by simp
  have c: "cleanup_firmware_file w f ?s2 =
             (Returns (),
              ?s2\<lparr>stdin := rest,
                 trace := trace ?s2 @
                   Prompt [Lit (''\<newline>Do you want to keep the firmware file '' @ [CHR 0x27]), Lit f,
                           Lit (CHR 0x27 # ''? (y/n): '')] #
                   (if says_y keep then []
                    else [Remove f, Print [Lit (tick @ '' Removed ''), Lit f]])\<rparr>)"
    using cleanup_keep[OF i, of w f] cleanup_delete[OF i _ rm, of f] by (cases "says_y keep") simp_all
  show ?thesis
    unfolding flash_stage_after_discovery[OF disc dev]
    using no lines c
    by (simp add: andthen_def input_def print_def emit_def raise_def)
qed

text \<open>
  C10. An answer counts as yes exactly when it is one \<open>y\<close> or \<open>Y\<close> with nothing but white
  space around it; the empty answer does not. At the cleanup prompt any other answer
  makes the program remove the downloaded file (and a yes removes nothing); at the
  flash confirmation any other answer cancels the update: nothing is flashed, the
  cleanup prompt follows, and the run ends with exit code 0.
\<close>

theorem only_y_is_affirmative:
  "(says_y r \<longleftrightarrow>
      (\<exists>l c t. r = l @ c # t \<and> (c = CHR ''y'' \<or> c = CHR ''Y'') \<and>
                (\<forall>x \<in> set l. is_space x) \<and> (\<forall>x \<in> set t. is_space x)))
   \<and> \<not> says_y []
   \<and> (\<not> says_y response \<longrightarrow> stdin s = Returns response # rest \<longrightarrow> file_remove w = Returns () \<longrightarrow>
        cleanup_firmware_file w f s =
          (Returns (),
           s\<lparr>stdin := rest,
             trace := trace s @
               [Prompt [Lit (''\<newline>Do you want to keep the firmware file '' @ [CHR 0x27]), Lit f,
                        Lit (CHR 0x27 # ''? (y/n): '')],
                Remove f,
                Print [Lit (tick @ '' Removed ''), Lit f]]\<rparr>))
   \<and> (says_y response \<longrightarrow> stdin s = Returns response # rest \<longrightarrow>
        cleanup_firmware_file w f s =
          (Returns (),
           s\<lparr>stdin := rest,
             trace := trace s @
               [Prompt [Lit (''\<newline>Do you want to keep the firmware file '' @ [CHR 0x27]), Lit f,
                        Lit (CHR 0x27 # ''? (y/n): '')]]\<rparr>))
   \<and> (\<not> says_y response \<longrightarrow>
        andthen print_instructions (\<lambda>_. get_gamepad_device_id w) s0 = (Returns dev, s1) \<longrightarrow>
        truthy dev \<longrightarrow> stdin s1 = Returns response # Returns keep # rest' \<longrightarrow>
        file_remove w = Returns () \<longrightarrow>
        flash_stage w f s0 =
          (Raises (SystemExit 0),
           s1\<lparr>stdin := rest',
              trace := trace s1 @
                [Prompt [Lit ''\<newline>Proceed with firmware update? (y/n): ''],
                 Print [Lit ''Update cancelled.''],
                 Prompt [Lit (''\<newline>Do you want to keep the firmware file '' @ [CHR 0x27]), Lit f,
                         Lit (CHR 0x27 # ''? (y/n): '')]] @
                (if says_y keep then []
                 else [Remove f, Print [Lit (tick @ '' Removed ''), Lit f]])\<rparr>))"
proof (intro conjI impI)
  show "says_y r \<longleftrightarrow>
      (\<exists>l c t. r = l @ c # t \<and> (c = CHR ''y'' \<or> c = CHR ''Y'') \<and>
                (\<forall>x \<in> set l. is_space x) \<and> (\<forall>x \<in> set t. is_space x))"
    by (rule says_y_iff)
  show "\<not> says_y []"
    by (simp add: says_y_def py_strip_def py_lower_def)
next
  assume "\<not> says_y response" "stdin s = Returns response # rest" "file_remove w = Returns ()"
  then show "cleanup_firmware_file w f s =
          (Returns (),
           s\<lparr>stdin := rest,
             trace := trace s @
               [Prompt [Lit (''\<newline>Do you want to keep the firmware file '' @ [CHR 0x27]), Lit f,
                        Lit (CHR 0x27 # ''? (y/n): '')],
                Remove f,
                Print [Lit (tick @ '' Removed ''), Lit f]]\<rparr>)"
    by (simp add: cleanup_delete)
next
  assume "says_y response" "stdin s = Returns response # rest"
  then show "cleanup_firmware_file w f s =
          (Returns (),
           s\<lparr>stdin := rest,
             trace := trace s @
               [Prompt [Lit (''\<newline>Do you want to keep the firmware file '' @ [CHR 0x27]), Lit f,
                        Lit (CHR 0x27 # ''? (y/n): '')]]\<rparr>)"
    by (simp add: cleanup_keep)
next
  assume "\<not> says_y response"
     "andthen print_instructions (\<lambda>_. get_gamepad_device_id w) s0 = (Returns dev, s1)"
     "truthy dev" "stdin s1 = Returns response # Returns keep # rest'"
     "file_remove w = Returns ()"
  then show "flash_stage w f s0 =
          (Raises (SystemExit 0),
           s1\<lparr>stdin := rest',
              trace := trace s1 @
                [Prompt [Lit ''\<newline>Proceed with firmware update? (y/n): ''],
                 Print [Lit ''Update cancelled.''],
                 Prompt [Lit (''\<newline>Do you want to keep the firmware file '' @ [CHR 0x27]), Lit f,
                         Lit (CHR 0x27 # ''? (y/n): '')]] @
                (if says_y keep then []
                 else [Remove f, Print [Lit (tick @ '' Removed ''), Lit f]])\<rparr>)"
    by (rule decline_cancels)
qed

lemma sample_discovery:
  "\<exists>tr. andthen print_instructions (\<lambda>_. get_gamepad_device_id sample_world)
           \<lparr>stdin = Returns line # rest, trace = t0\<rparr> =
         (Returns (JStr ''abc123''), \<lparr>stdin = rest, trace = tr\<rparr>)"
proof -
  have m: "vendor_match (py_lower ''8BitDo'')"
    by code_simp
  show ?thesis
    unfolding print_instructions_def get_gamepad_device_id_def
    using m by (simp add: prog_defs sample_world_def py_get_def)
qed

theorem only_y_is_affirmative_witness:
  "\<not> says_y ''no'' \<and> \<not> says_y [] \<and> says_y '' Y ''
   \<and> cleanup_firmware_file sample_world ''pro2_v205.dat'' \<lparr>stdin = [Returns ''no''], trace = []\<rparr> =
        (Returns (),
         \<lparr>stdin = [],
          trace = [Prompt [Lit (''\<newline>Do you want to keep the firmware file '' @ [CHR 0x27]),
                           Lit ''pro2_v205.dat'', Lit (CHR 0x27 # ''? (y/n): '')],
                   Remove ''pro2_v205.dat'',
                   Print [Lit (tick @ '' Removed ''), Lit ''pro2_v205.dat'']]\<rparr>)
   \<and> (\<exists>pre. flash_stage sample_world ''pro2_v205.dat''
               \<lparr>stdin = [Returns [], Returns ''no'', Returns []], trace = []\<rparr> =
        (Raises (SystemExit 0),
         \<lparr>stdin = [],
          trace = pre @
            [Prompt [Lit ''\<newline>Proceed with firmware update? (y/n): ''],
             Print [Lit ''Update cancelled.''],
             Prompt [Lit (''\<newline>Do you want to keep the firmware file '' @ [CHR 0x27]),
                     Lit ''pro2_v205.dat'', Lit (CHR 0x27 # ''? (y/n): '')],
             Remove ''pro2_v205.dat'',
             Print [Lit (tick @ '' Removed ''), Lit ''pro2_v205.dat'']]\<rparr>))"
proof -
  have no: "\<not> says_y ''no''" by code_simp
  have e: "\<not> says_y []" by code_simp
  have y: "says_y '' Y ''" by code_simp
  have rm: "file_remove sample_world = Returns ()" by (simp add: sample_world_def)
  obtain tr where d: "andthen print_instructions (\<lambda>_. get_gamepad_device_id sample_world)
           \<lparr>stdin = Returns [] # [Returns ''no'', Returns []], trace = []\<rparr> =
         (Returns (JStr ''abc123''), \<lparr>stdin = [Returns ''no'', Returns []], trace = tr\<rparr>)"
    using sample_discovery by blast
  have t: "truthy (JStr ''abc123'')" by simp
  note th = only_y_is_affirmative[of "'' Y ''" "''no''"
      "\<lparr>stdin = [Returns ''no''], trace = []\<rparr>" "[]" sample_world "''pro2_v205.dat''"
      "\<lparr>stdin = [Returns [], Returns ''no'', Returns []], trace = []\<rparr>" "JStr ''abc123''"
      "\<lparr>stdin = [Returns ''no'', Returns []], trace = tr\<rparr>" "[]" "[]"]
  from th no e rm d t show ?thesis
    by (intro conjI y exI[of _ tr]) simp_all
qed

text \<open>
  C9. An interrupt during the first request of the sweeper is not caught: the script
  ends in a traceback of \<open>KeyboardInterrupt\<close>, not with exit code 0. The orchestrator
  interrupted at its second prompt does end with exit code 0.
\<close>

theorem sweeper_interrupt_uncaught:
  "scraper_script \<lparr>net = interrupted_net, open_w = (\<lambda>path. None)\<rparr> sample_args =
     ([Request 0 False 10], Traceback KeyboardInterrupt)
   \<and> snd (updater_script sample_world [Returns ''12'', Raises KeyboardInterrupt]) = Exit 0"
proof
  show "scraper_script \<lparr>net = interrupted_net, open_w = (\<lambda>path. None)\<rparr> sample_args =
     ([Request 0 False 10], Traceback KeyboardInterrupt)"
    by (simp add: scraper_script_def scraper_main_def sample_args_def upto.simps visit_def
          fetch_first_fatal[where x = KeyboardInterrupt] interrupted_net_def)
  have "version_check sample_world = Returns ()" by (simp add: sample_world_def)
  from choose_12[OF this, of "[Raises KeyboardInterrupt]"] obtain tr where
    c: "choose_gamepad sample_world \<lparr>stdin = [Returns ''12'', Raises KeyboardInterrupt], trace = []\<rparr> =
          (Returns \<lparr>gname = ''Pro 2'', gtype = 33\<rparr>,
           \<lparr>stdin = [Raises KeyboardInterrupt], trace = tr\<rparr>)"
    by blast
  show "snd (updater_script sample_world [Returns ''12'', Raises KeyboardInterrupt]) = Exit 0"
    using c
    by (simp add: updater_script_def updater_main_def obtain_firmware_def prog_defs)
qed

end
